theory Spec2Isabelle
  imports Main "HOL-Library.Sublist"
begin

section \<open>The synth_quicklogic script pass\<close>

text \<open>
  A shallow embedding of \<^verbatim>\<open>src/ql-qlf-plugin/synth_quicklogic.cc\<close>: the members of
  \<^verbatim>\<open>SynthQuickLogicPass\<close> are a record, \<^verbatim>\<open>execute\<close> is a function from the argument
  vector and the design to an error or an outcome, and \<^verbatim>\<open>script\<close> is a function to
  the list of commands handed to \<^verbatim>\<open>run\<close>, in the order in which they are issued.
\<close>

subsection \<open>Members of the pass (lines 106-134)\<close>

record config =
  top_opt :: string
  edif_file :: string
  blif_file :: string
  family :: string
  currmodule :: string
  verilog_file :: string
  use_dsp_cfg_params :: string
  lib_path :: string
  nodsp :: bool
  inferAdder :: bool
  inferBram :: bool
  bramTypes :: bool
  abcOpt :: bool
  abc9 :: bool
  noffmap :: bool
  nosdff :: bool

definition clear_flags :: config where
  "clear_flags =
     \<lparr> top_opt = ''-auto-top'', edif_file = '''', blif_file = '''', family = ''qlf_k4n8'',
       currmodule = '''', verilog_file = '''', use_dsp_cfg_params = '''',
       lib_path = ''+/quicklogic/'',
       nodsp = False, inferAdder = True, inferBram = True, bramTypes = False,
       abcOpt = True, abc9 = True, noffmap = False, nosdff = False \<rparr>"

subsection \<open>String helpers\<close>

text \<open>\<^verbatim>\<open>std::string::find(c)\<close>: the position of the first occurrence, or npos (\<open>None\<close>).\<close>

fun str_find :: "char \<Rightarrow> string \<Rightarrow> nat option" where
  "str_find c [] = None"
| "str_find c (x # xs) =
     (if x = c then Some 0 else (case str_find c xs of None \<Rightarrow> None | Some n \<Rightarrow> Some (Suc n)))"

text \<open>Decimal rendering, as \<^verbatim>\<open>stringf\<close> does for \<^verbatim>\<open>%zu\<close> and \<^verbatim>\<open>%d\<close>.\<close>

definition digit_char :: "nat \<Rightarrow> char" where
  "digit_char d = ''0123456789'' ! d"

fun show_nat :: "nat \<Rightarrow> string" where
  "show_nat n = (if n < 10 then [digit_char n] else show_nat (n div 10) @ [digit_char (n mod 10)])"

declare show_nat.simps [simp del]

definition show_int :: "int \<Rightarrow> string" where
  "show_int i = (if i < 0 then CHR ''-'' # show_nat (nat (- i)) else show_nat (nat i))"

subsection \<open>Argument parsing in execute (lines 138-213)\<close>

record parse_st =
  flags :: config
  run_from :: string
  run_to :: string

text \<open>The value of \<^verbatim>\<open>-run\<close> (lines 144-151): split at the first colon, or both ends the
  same name when there is none.\<close>

definition split_run :: "string \<Rightarrow> string \<times> string" where
  "split_run v =
     (case str_find CHR '':'' v of
        None \<Rightarrow> (v, v)
      | Some pos \<Rightarrow> (take pos v, drop (pos + 1) v))"

definition upd_flags :: "(config \<Rightarrow> config) \<Rightarrow> parse_st \<Rightarrow> parse_st" where
  "upd_flags f st = st\<lparr>flags := f (flags st)\<rparr>"

text \<open>The loop over \<^verbatim>\<open>args[argidx]\<close>, on the arguments that remain. An option with a
  value needs \<^verbatim>\<open>argidx + 1 < args.size()\<close>, that is a non-empty rest. The loop stops
  (\<^verbatim>\<open>break\<close>) at the first argument it does not know and returns what is left.\<close>

function parse_flags :: "string list \<Rightarrow> parse_st \<Rightarrow> parse_st \<times> string list" where
  "parse_flags [] st = (st, [])"
| "parse_flags (a # rest) st =
     (if a = ''-run'' \<and> rest \<noteq> [] then
        parse_flags (tl rest)
          (st\<lparr>run_from := fst (split_run (hd rest)), run_to := snd (split_run (hd rest))\<rparr>)
      else if a = ''-top'' \<and> rest \<noteq> [] then
        parse_flags (tl rest) (upd_flags (\<lambda>c. c\<lparr>top_opt := ''-top '' @ hd rest\<rparr>) st)
      else if a = ''-edif'' \<and> rest \<noteq> [] then
        parse_flags (tl rest) (upd_flags (\<lambda>c. c\<lparr>edif_file := hd rest\<rparr>) st)
      else if a = ''-family'' \<and> rest \<noteq> [] then
        parse_flags (tl rest) (upd_flags (\<lambda>c. c\<lparr>family := hd rest\<rparr>) st)
      else if a = ''-blif'' \<and> rest \<noteq> [] then
        parse_flags (tl rest) (upd_flags (\<lambda>c. c\<lparr>blif_file := hd rest\<rparr>) st)
      else if a = ''-verilog'' \<and> rest \<noteq> [] then
        parse_flags (tl rest) (upd_flags (\<lambda>c. c\<lparr>verilog_file := hd rest\<rparr>) st)
      else if a = ''-no_dsp'' then
        parse_flags rest (upd_flags (\<lambda>c. c\<lparr>nodsp := True\<rparr>) st)
      else if a = ''-use_dsp_cfg_params'' then
        parse_flags rest (upd_flags (\<lambda>c. c\<lparr>use_dsp_cfg_params := '' -use_dsp_cfg_params''\<rparr>) st)
      else if a = ''-no_adder'' then
        parse_flags rest (upd_flags (\<lambda>c. c\<lparr>inferAdder := False\<rparr>) st)
      else if a = ''-no_bram'' then
        parse_flags rest (upd_flags (\<lambda>c. c\<lparr>inferBram := False\<rparr>) st)
      else if a = ''-bram_types'' then
        parse_flags rest (upd_flags (\<lambda>c. c\<lparr>bramTypes := True\<rparr>) st)
      else if a = ''-no_abc_opt'' then
        parse_flags rest (upd_flags (\<lambda>c. c\<lparr>abcOpt := False\<rparr>) st)
      else if a = ''-no_abc9'' then
        parse_flags rest (upd_flags (\<lambda>c. c\<lparr>abc9 := False\<rparr>) st)
      else if a = ''-no_ff_map'' then
        parse_flags rest (upd_flags (\<lambda>c. c\<lparr>noffmap := True\<rparr>) st)
      else if a = ''-nosdff'' then
        parse_flags rest (upd_flags (\<lambda>c. c\<lparr>nosdff := True\<rparr>) st)
      else (st, a # rest))"
  by pat_completeness auto
termination
  by (relation "measure (\<lambda>(xs, st). length xs)") auto

declare parse_flags.simps [simp del]

subsection \<open>The host: design, scratch store, errors\<close>

text \<open>
  What \<^verbatim>\<open>execute\<close> reads and writes of \<^verbatim>\<open>RTLIL::Design\<close>: the scratch store (its
  string view and its integer view) and whether the design is fully selected. The
  store's getters return the default they are given when the key is absent.
\<close>

record design =
  scratch_string :: "string \<rightharpoonup> string"
  scratch_int :: "string \<rightharpoonup> int"
  full_selection :: bool

definition scratchpad_get_string :: "design \<Rightarrow> string \<Rightarrow> string \<Rightarrow> string" where
  "scratchpad_get_string d k dflt = (case scratch_string d k of None \<Rightarrow> dflt | Some v \<Rightarrow> v)"

definition scratchpad_get_int :: "design \<Rightarrow> string \<Rightarrow> int \<Rightarrow> int" where
  "scratchpad_get_int d k dflt = (case scratch_int d k of None \<Rightarrow> dflt | Some v \<Rightarrow> v)"

definition scratchpad_set_int :: "design \<Rightarrow> string \<Rightarrow> int \<Rightarrow> design" where
  "scratchpad_set_int d k v = d\<lparr>scratch_int := (scratch_int d)(k \<mapsto> v)\<rparr>"

text \<open>\<^verbatim>\<open>log_cmd_error\<close> does not return: each call is an error value. \<open>HostError\<close> is a
  failure of the host's \<^verbatim>\<open>extra_args\<close>.\<close>

datatype error =
    NotFullySelected
  | InvalidFamily string
  | HostError string

text \<open>The host functions the pass calls and that are not part of this repository are
  parameters: \<^verbatim>\<open>Pass::extra_args\<close>, which handles the arguments the loop left, and
  \<^verbatim>\<open>rewrite_filename\<close>.\<close>

record host =
  extra_args :: "string list \<Rightarrow> nat \<Rightarrow> design \<Rightarrow> error + design"
  rewrite_filename :: "string \<Rightarrow> string"

subsection \<open>The resume window\<close>

definition checkpoints :: "string list" where
  "checkpoints =
     [''begin'', ''prepare'', ''map_dsp'', ''coarse'', ''map_bram'', ''map_ffram'',
      ''map_gates'', ''map_ffs'', ''map_luts'', ''map_cells'', ''check'', ''iomap'',
      ''finalize'', ''blif'', ''edif'', ''verilog'']"

fun index_of :: "string \<Rightarrow> string list \<Rightarrow> nat option" where
  "index_of l [] = None"
| "index_of l (x # xs) =
     (if x = l then Some 0 else (case index_of l xs of None \<Rightarrow> None | Some n \<Rightarrow> Some (Suc n)))"

text \<open>
  Modelled from the spec: the resume-window test of the host's \<^verbatim>\<open>ScriptPass\<close> base class
  (\<^verbatim>\<open>check_label\<close> as set up by \<^verbatim>\<open>run_script\<close>), which is not under src/. The window is
  the inclusive range of checkpoints from \<open>from\<close> to \<open>to\<close>; an empty end stands for
  the first, respectively the last, checkpoint. A name that is no checkpoint selects
  nothing.
\<close>

definition window_lo :: "string \<Rightarrow> nat option" where
  "window_lo from = (if from = [] then Some 0 else index_of from checkpoints)"

definition window_hi :: "string \<Rightarrow> nat option" where
  "window_hi to = (if to = [] then Some (length checkpoints - 1) else index_of to checkpoints)"

definition in_window :: "string \<Rightarrow> string \<Rightarrow> string \<Rightarrow> bool" where
  "in_window from to l =
     (case (window_lo from, window_hi to, index_of l checkpoints) of
        (Some a, Some b, Some i) \<Rightarrow> a \<le> i \<and> i \<le> b
      | _ \<Rightarrow> False)"

subsection \<open>The script (lines 243-618)\<close>

text \<open>
  \<open>hm\<close> is \<^verbatim>\<open>help_mode\<close>; \<open>chk l\<close> is what \<^verbatim>\<open>check_label(l)\<close> returns. The script calls
  \<^verbatim>\<open>check_label\<close> once for each checkpoint, in the fixed order, whatever the flags, so
  a function of the label covers every host. Each block below is the list of commands
  its checkpoint passes to \<^verbatim>\<open>run\<close>, in order. \<^verbatim>\<open>run\<close> hands the command to the design
  in real mode and prints it in help mode; a command that the host rejects aborts the
  run, so the list is what is issued when every command succeeds.
\<close>

definition family_path :: "config \<Rightarrow> string" where
  "family_path c = '' '' @ lib_path c @ family c"

definition readVelArgs :: "config \<Rightarrow> string" where
  "readVelArgs c =
     family_path c @ ''/cells_sim.v'' @
     (if family c = ''qlf_k6n10f'' then
        family_path c @ ''/dsp_sim.v'' @ family_path c @ ''/brams_sim.v'' @
        (if bramTypes c then family_path c @ ''/bram_types_sim.v'' else [])
      else [])"

definition begin_block :: "config \<Rightarrow> bool \<Rightarrow> (string \<Rightarrow> bool) \<Rightarrow> string list" where
  "begin_block c hm chk =
     (if chk ''begin'' then
        [''read_verilog -lib -specify -nomem2reg '' @ lib_path c @ ''common/cells_sim.v'' @ readVelArgs c,
         ''hierarchy -check '' @ (if hm then ''-top <top>'' else top_opt c)]
      else [])"

text \<open>The \<^verbatim>\<open>prepare\<close> block appends to the local \<^verbatim>\<open>noDFFArgs\<close>, which starts empty on
  every call of \<^verbatim>\<open>script\<close> (line 249): the block returns its commands and the string.\<close>

definition noDFFArgs_prepare :: "config \<Rightarrow> string" where
  "noDFFArgs_prepare c =
     (if nosdff c then '' -nosdff'' else []) @
     (if family c = ''qlf_k4n8'' then '' -nodffe'' else [])"

definition prepare_block :: "config \<Rightarrow> bool \<Rightarrow> (string \<Rightarrow> bool) \<Rightarrow> string list \<times> string" where
  "prepare_block c hm chk =
     (if chk ''prepare'' then
        ([''proc'', ''flatten''] @
         (if hm \<or> family c = ''pp3'' then [''tribuf -logic''] else []) @
         [''deminout'', ''opt_expr'', ''opt_clean'',
          ''check'', ''opt -nodffe -nosdff'', ''fsm'', ''opt'' @ noDFFArgs_prepare c,
          ''wreduce'', ''peepopt'', ''opt_clean'', ''share''],
         noDFFArgs_prepare c)
      else ([], []))"

text \<open>The condition of the \<^verbatim>\<open>map_dsp\<close> block (line 297) is the comma expression
  \<^verbatim>\<open>check_label("map_dsp"), "(skip if -no_dsp)"\<close>: the call is evaluated and its result
  dropped, and the value tested is the string literal, a pointer that is never null.\<close>

definition comma :: "'a \<Rightarrow> 'b \<Rightarrow> 'b" where
  "comma a b = b"

definition literal_nonnull :: "string \<Rightarrow> bool" where
  "literal_nonnull s = True"

record DspParams =
  a_maxwidth :: nat
  b_maxwidth :: nat
  a_minwidth :: nat
  b_minwidth :: nat
  type :: string

definition dsp_rules :: "DspParams list" where
  "dsp_rules =
     [\<lparr>a_maxwidth = 20, b_maxwidth = 18, a_minwidth = 11, b_minwidth = 10, type = ''$__QL_MUL20X18''\<rparr>,
      \<lparr>a_maxwidth = 10, b_maxwidth = 9, a_minwidth = 4, b_minwidth = 4, type = ''$__QL_MUL10X9''\<rparr>]"

definition dsp_rule_techmap :: "DspParams \<Rightarrow> string" where
  "dsp_rule_techmap rule =
     ''techmap -map +/mul2dsp.v -D DSP_A_MAXWIDTH='' @ show_nat (a_maxwidth rule) @
     '' -D DSP_B_MAXWIDTH='' @ show_nat (b_maxwidth rule) @
     '' -D DSP_A_MINWIDTH='' @ show_nat (a_minwidth rule) @
     '' -D DSP_B_MINWIDTH='' @ show_nat (b_minwidth rule) @
     '' -D DSP_NAME='' @ type rule"

definition dsp_rules_cmds :: "DspParams list \<Rightarrow> string list" where
  "dsp_rules_cmds rules =
     concat (map (\<lambda>rule. [dsp_rule_techmap rule, ''chtype -set $mul t:$__soft_mul'']) rules)"

definition dsp_map_cmd :: "config \<Rightarrow> string" where
  "dsp_map_cmd c =
     (if use_dsp_cfg_params c = [] then
        ''techmap -map '' @ lib_path c @ family c @ ''/dsp_map.v -D USE_DSP_CFG_PARAMS=0''
      else
        ''techmap -map '' @ lib_path c @ family c @ ''/dsp_map.v -D USE_DSP_CFG_PARAMS=1'')"

definition map_dsp_k6n10 :: "config \<Rightarrow> string list" where
  "map_dsp_k6n10 c =
     [''memory_dff'',
      ''wreduce t:$mul'',
      ''techmap -map +/mul2dsp.v -map '' @ lib_path c @ family c @
        ''/dsp_map.v -D DSP_A_MAXWIDTH=16 -D DSP_B_MAXWIDTH=16 -D DSP_A_MINWIDTH=2 -D DSP_B_MINWIDTH=2 -D DSP_Y_MINWIDTH=11 -D DSP_NAME=$__MUL16X16'',
      ''select a:mul2dsp'',
      ''setattr -unset mul2dsp'',
      ''opt_expr -fine'',
      ''wreduce'',
      ''select -clear'',
      ''ql_dsp'',
      ''chtype -set $mul t:$__soft_mul'']"

definition map_dsp_k6n10f_help :: "config \<Rightarrow> string list" where
  "map_dsp_k6n10f_help c =
     [''wreduce t:$mul'',
      ''ql_dsp_macc'' @ use_dsp_cfg_params c,
      ''techmap -map +/mul2dsp.v [...]'',
      ''chtype -set $mul t:$__soft_mul'',
      ''techmap -map '' @ lib_path c @ family c @ ''/dsp_map.v'',
      dsp_map_cmd c,
      ''ql_dsp_simd'',
      ''techmap -map '' @ lib_path c @ family c @ ''/dsp_final_map.v'',
      ''ql_dsp_io_regs'']"

definition map_dsp_k6n10f :: "config \<Rightarrow> string list" where
  "map_dsp_k6n10f c =
     [''wreduce t:$mul'', ''ql_dsp_macc'' @ use_dsp_cfg_params c] @
     dsp_rules_cmds dsp_rules @
     [dsp_map_cmd c,
      ''ql_dsp_simd'',
      ''techmap -map '' @ lib_path c @ family c @ ''/dsp_final_map.v'',
      ''ql_dsp_io_regs'']"

definition map_dsp_body :: "config \<Rightarrow> bool \<Rightarrow> string list" where
  "map_dsp_body c hm =
     (if hm \<or> family c = ''qlf_k6n10'' then
        (if hm \<or> \<not> nodsp c then map_dsp_k6n10 c else [])
      else []) @
     (if hm \<or> family c = ''qlf_k6n10f'' then
        (if hm then map_dsp_k6n10f_help c
         else if \<not> nodsp c then map_dsp_k6n10f c
         else [])
      else [])"

definition map_dsp_block :: "config \<Rightarrow> bool \<Rightarrow> (string \<Rightarrow> bool) \<Rightarrow> string list" where
  "map_dsp_block c hm chk =
     (if comma (chk ''map_dsp'') (literal_nonnull ''(skip if -no_dsp)'') then map_dsp_body c hm
      else [])"

definition coarse_block :: "string \<Rightarrow> (string \<Rightarrow> bool) \<Rightarrow> string list" where
  "coarse_block noDFFArgs chk =
     (if chk ''coarse'' then
        [''techmap -map +/cmp2lut.v -D LUT_WIDTH=4'', ''opt_expr'', ''opt_clean'', ''alumacc'',
         ''pmuxtree'', ''opt'' @ noDFFArgs, ''memory -nomap'', ''opt_clean'']
      else [])"

text \<open>The \<^verbatim>\<open>chtype\<close> commands of \<^verbatim>\<open>-bram_types\<close> (lines 401-457). In each format string
  \<^verbatim>\<open>%d\<close> is a width and \<^verbatim>\<open>%%i\<close> prints as \<^verbatim>\<open>%i\<close>.\<close>

definition chtype_bram_nonsplit :: "int \<Rightarrow> int \<Rightarrow> string" where
  "chtype_bram_nonsplit a b =
     ''chtype -set TDP36K_BRAM_A_X'' @ show_int a @ ''_B_X'' @ show_int b @
     ''_nonsplit t:TDP36K a:is_inferred=0 %i a:is_fifo=0 %i a:port_a_dwidth='' @ show_int a @
     '' %i a:port_b_dwidth='' @ show_int b @ '' %i''"

definition chtype_fifo_async_nonsplit :: "int \<Rightarrow> int \<Rightarrow> string" where
  "chtype_fifo_async_nonsplit a b =
     ''chtype -set TDP36K_FIFO_ASYNC_A_X'' @ show_int a @ ''_B_X'' @ show_int b @
     ''_nonsplit t:TDP36K a:is_inferred=0 %i a:is_fifo=1 %i a:sync_fifo=0 %i a:port_a_dwidth='' @
     show_int a @ '' %i a:port_b_dwidth='' @ show_int b @ '' %i''"

definition chtype_fifo_sync_nonsplit :: "int \<Rightarrow> int \<Rightarrow> string" where
  "chtype_fifo_sync_nonsplit a b =
     ''chtype -set TDP36K_FIFO_SYNC_A_X'' @ show_int a @ ''_B_X'' @ show_int b @
     ''_nonsplit t:TDP36K a:is_inferred=0 %i a:is_fifo=1 %i a:sync_fifo=1 %i a:port_a_dwidth='' @
     show_int a @ '' %i a:port_b_dwidth='' @ show_int b @ '' %i''"

definition split_widths :: "string \<Rightarrow> int \<Rightarrow> int \<Rightarrow> int \<Rightarrow> int \<Rightarrow> string" where
  "split_widths w a1 b1 a2 b2 =
     ''a:port_a1_'' @ w @ ''='' @ show_int a1 @ '' %i a:port_b1_'' @ w @ ''='' @ show_int b1 @
     '' %i a:port_a2_'' @ w @ ''='' @ show_int a2 @ '' %i a:port_b2_'' @ w @ ''='' @ show_int b2 @
     '' %i''"

definition chtype_bram_split :: "int \<Rightarrow> int \<Rightarrow> int \<Rightarrow> int \<Rightarrow> string" where
  "chtype_bram_split a1 b1 a2 b2 =
     ''chtype -set TDP36K_BRAM_A1_X'' @ show_int a1 @ ''_B1_X'' @ show_int b1 @
     ''_A2_X'' @ show_int a2 @ ''_B2_X'' @ show_int b2 @
     ''_split t:TDP36K a:is_inferred=0 %i a:is_split=1 %i a:is_fifo=0 %i '' @
     split_widths ''dwidth'' a1 b1 a2 b2"

definition chtype_fifo_async_split :: "int \<Rightarrow> int \<Rightarrow> int \<Rightarrow> int \<Rightarrow> string" where
  "chtype_fifo_async_split a1 b1 a2 b2 =
     ''chtype -set TDP36K_FIFO_ASYNC_A1_X'' @ show_int a1 @ ''_B1_X'' @ show_int b1 @
     ''_A2_X'' @ show_int a2 @ ''_B2_X'' @ show_int b2 @
     ''_split t:TDP36K a:is_inferred=0 %i a:is_split=1 %i a:is_fifo=1 %i a:sync_fifo=0 %i '' @
     split_widths ''dwidth'' a1 b1 a2 b2"

definition chtype_fifo_sync_split :: "int \<Rightarrow> int \<Rightarrow> int \<Rightarrow> int \<Rightarrow> string" where
  "chtype_fifo_sync_split a1 b1 a2 b2 =
     ''chtype -set TDP36K_FIFO_SYNC_A1_X'' @ show_int a1 @ ''_B1_X'' @ show_int b1 @
     ''_A2_X'' @ show_int a2 @ ''_B2_X'' @ show_int b2 @
     ''_split t:TDP36K a:is_inferred=0 %i a:is_split=1 %i a:is_fifo=1 %i a:sync_fifo=1 %i '' @
     split_widths ''dwidth'' a1 b1 a2 b2"

definition chtype_inferred_nonsplit :: "int \<Rightarrow> int \<Rightarrow> string" where
  "chtype_inferred_nonsplit a b =
     ''chtype -set TDP36K_BRAM_A_X'' @ show_int a @ ''_B_X'' @ show_int b @
     ''_nonsplit t:TDP36K a:is_inferred=1 %i a:port_a_width='' @ show_int a @
     '' %i a:port_b_width='' @ show_int b @ '' %i''"

definition chtype_inferred_split :: "int \<Rightarrow> int \<Rightarrow> int \<Rightarrow> int \<Rightarrow> string" where
  "chtype_inferred_split a1 b1 a2 b2 =
     ''chtype -set TDP36K_BRAM_A1_X'' @ show_int a1 @ ''_B1_X'' @ show_int b1 @
     ''_A2_X'' @ show_int a2 @ ''_B2_X'' @ show_int b2 @
     ''_split t:TDP36K a:is_inferred=1 %i '' @ split_widths ''width'' a1 b1 a2 b2"

definition widths36 :: "int list" where
  "widths36 = [1, 2, 4, 9, 18, 36]"

definition widths18 :: "int list" where
  "widths18 = [1, 2, 4, 9, 18]"

text \<open>The range-for loops: a nested loop is the concatenation, in order, of what its
  body issues for each value.\<close>

definition for2 :: "int list \<Rightarrow> (int \<Rightarrow> int \<Rightarrow> string list) \<Rightarrow> string list" where
  "for2 ws body = concat (map (\<lambda>a. concat (map (\<lambda>b. body a b) ws)) ws)"

definition for4 :: "int list \<Rightarrow> (int \<Rightarrow> int \<Rightarrow> int \<Rightarrow> int \<Rightarrow> string list) \<Rightarrow> string list" where
  "for4 ws body =
     concat (map (\<lambda>a1. concat (map (\<lambda>b1. concat (map (\<lambda>a2. concat (map (\<lambda>b2.
       body a1 b1 a2 b2) ws)) ws)) ws)) ws)"

definition nonsplit_cmds :: "string list" where
  "nonsplit_cmds =
     for2 widths36 (\<lambda>a b.
       [chtype_bram_nonsplit a b, chtype_fifo_async_nonsplit a b, chtype_fifo_sync_nonsplit a b])"

definition split_cmds :: "string list" where
  "split_cmds =
     for4 widths18 (\<lambda>a1 b1 a2 b2.
       [chtype_bram_split a1 b1 a2 b2, chtype_fifo_async_split a1 b1 a2 b2,
        chtype_fifo_sync_split a1 b1 a2 b2])"

definition inferred_nonsplit_cmds :: "string list" where
  "inferred_nonsplit_cmds = for2 widths36 (\<lambda>a b. [chtype_inferred_nonsplit a b])"

definition inferred_split_cmds :: "string list" where
  "inferred_split_cmds = for4 widths18 (\<lambda>a1 b1 a2 b2. [chtype_inferred_split a1 b1 a2 b2])"

definition bram_types_cmds :: "string list" where
  "bram_types_cmds = nonsplit_cmds @ split_cmds @ inferred_nonsplit_cmds @ inferred_split_cmds"

definition map_bram_body :: "config \<Rightarrow> bool \<Rightarrow> string list" where
  "map_bram_body c hm =
     (if hm \<or> family c = ''qlf_k6n10f'' then
        [''memory_libmap -lib '' @ lib_path c @ family c @ ''/libmap_brams.txt'',
         ''ql_bram_merge'',
         ''techmap -map '' @ lib_path c @ family c @ ''/libmap_brams_map.v'']
      else []) @
     (if hm \<or> family c = ''qlf_k6n10'' \<or> family c = ''pp3'' then
        [''memory_bram -rules '' @ lib_path c @ family c @ ''/brams.txt'']
      else []) @
     (if hm \<or> family c = ''pp3'' then [''pp3_braminit''] else []) @
     [''techmap -autoproc -map '' @ lib_path c @ family c @ ''/brams_map.v''] @
     (if family c = ''qlf_k6n10f'' then
        [''techmap -map '' @ lib_path c @ family c @ ''/brams_final_map.v'']
      else []) @
     (if hm then [''chtype -set TDP36K_<mode> t:TDP36K a:<mode>''] else []) @
     (if bramTypes c then bram_types_cmds else [])"

definition map_bram_block :: "config \<Rightarrow> bool \<Rightarrow> (string \<Rightarrow> bool) \<Rightarrow> string list" where
  "map_bram_block c hm chk =
     (if chk ''map_bram'' \<and>
         (hm \<or> family c = ''qlf_k6n10'' \<or> family c = ''qlf_k6n10f'' \<or> family c = ''pp3'') \<and>
         inferBram c
      then map_bram_body c hm else [])"

definition map_ffram_block :: "string \<Rightarrow> (string \<Rightarrow> bool) \<Rightarrow> string list" where
  "map_ffram_block noDFFArgs chk =
     (if chk ''map_ffram'' then
        [''opt -fast -mux_undef -undriven -fine'' @ noDFFArgs,
         ''memory_map -iattr -attr !ram_block -attr !rom_block -attr logic_block -attr syn_ramstyle=auto -attr syn_ramstyle=registers -attr syn_romstyle=auto -attr syn_romstyle=logic'',
         ''opt -undriven -fine'' @ noDFFArgs]
      else [])"

definition map_gates_block :: "config \<Rightarrow> bool \<Rightarrow> string \<Rightarrow> (string \<Rightarrow> bool) \<Rightarrow> string list" where
  "map_gates_block c hm noDFFArgs chk =
     (if chk ''map_gates'' then
        (if hm \<or> (inferAdder c \<and>
              (family c = ''qlf_k4n8'' \<or> family c = ''qlf_k6n10'' \<or> family c = ''qlf_k6n10f''))
         then [''techmap -map +/techmap.v -map '' @ lib_path c @ family c @ ''/arith_map.v'']
         else [''techmap'']) @
        [''opt -fast'' @ noDFFArgs] @
        (if hm \<or> family c = ''pp3'' then [''muxcover -mux8 -mux4''] else []) @
        [''opt_expr'', ''opt_merge'', ''opt_clean'', ''opt'' @ noDFFArgs]
      else [])"

definition legalizeArgs :: "config \<Rightarrow> string" where
  "legalizeArgs c =
     '' -cell $_DFFSRE_?NNP_ 0 -cell $_DLATCHSR_?NN_ 0 -cell $_DLATCH_?_ 0'' @
     (if \<not> nosdff c then '' -cell $_SDFFE_?N?P_ 0'' else [])"

definition map_ffs_family :: "config \<Rightarrow> string list" where
  "map_ffs_family c =
     (if family c = ''qlf_k4n8'' then
        [''shregmap -minlen 8 -maxlen 8'',
         ''dfflegalize -cell $_DFF_P_ 0 -cell $_DFF_P??_ 0 -cell $_DFF_N_ 0 -cell $_DFF_N??_ 0 -cell $_DFFSR_???_ 0'']
      else if family c = ''qlf_k6n10'' then
        [''dfflegalize -cell $_DFF_P_ 0 -cell $_DFF_PP?_ 0 -cell $_DFFE_PP?P_ 0 -cell $_DFFSR_PPP_ 0 -cell $_DFFSRE_PPPP_ 0 -cell $_DLATCHSR_PPP_ 0'']
      else if family c = ''qlf_k6n10f'' then
        [''shregmap -minlen 8 -maxlen 20'', ''dfflegalize'' @ legalizeArgs c]
      else if family c = ''pp3'' then
        [''dfflegalize -cell $_DFFSRE_PPPP_ 0 -cell $_DLATCH_?_ x'',
         ''techmap -map '' @ lib_path c @ family c @ ''/cells_map.v'']
      else [])"

definition map_ffs_block :: "config \<Rightarrow> bool \<Rightarrow> string \<Rightarrow> (string \<Rightarrow> bool) \<Rightarrow> string list" where
  "map_ffs_block c hm noDFFArgs chk =
     (if chk ''map_ffs'' then
        [''opt_expr''] @
        (if hm then
           [''shregmap -minlen <min> -maxlen <max>'',
            ''dfflegalize -cell <supported FF types>'',
            ''techmap -map '' @ lib_path c @ family c @ ''/cells_map.v'']
         else []) @
        map_ffs_family c @
        (if hm \<or> \<not> noffmap c then
           [''techmap '' @ '' -map +/techmap.v -map '' @ lib_path c @ family c @ ''/ffs_map.v'']
         else []) @
        (if hm \<or> family c = ''pp3'' then [''opt_expr -mux_undef''] else []) @
        [''opt_merge'', ''opt_clean'', ''opt'' @ noDFFArgs]
      else [])"

definition abcArgs :: "host \<Rightarrow> config \<Rightarrow> bool \<Rightarrow> string" where
  "abcArgs h c hm =
     (if hm then ''<script>''
      else ''+read_lut,'' @ rewrite_filename h (lib_path c @ family c @ ''/lutdefs.txt'') @
           '';strash;ifraig;scorr;dc2;dretime;strash;dch,-f;if;mfs2;sweep;eliminate;if;mfs;lutpack;dress'')"

definition map_luts_pp3 :: "host \<Rightarrow> config \<Rightarrow> bool \<Rightarrow> string list" where
  "map_luts_pp3 h c hm =
     [''techmap -map '' @ lib_path c @ family c @ ''/latches_map.v''] @
     (if hm \<or> abc9 c then
        [''read_verilog -lib -specify -icells '' @ lib_path c @ family c @ ''/abc9_model.v'',
         ''techmap -map '' @ lib_path c @ family c @ ''/abc9_map.v'',
         ''abc9 -maxlut 4 -dff'',
         ''techmap -map '' @ lib_path c @ family c @ ''/abc9_unmap.v'']
      else []) @
     (if hm \<or> \<not> abc9 c then [''abc -script '' @ abcArgs h c hm] else [])"

definition map_luts_block :: "host \<Rightarrow> config \<Rightarrow> bool \<Rightarrow> (string \<Rightarrow> bool) \<Rightarrow> string list" where
  "map_luts_block h c hm chk =
     (if chk ''map_luts'' then
        (if hm \<or> abcOpt c then
           (if hm \<or> family c = ''qlf_k6n10'' \<or> family c = ''qlf_k6n10f'' then
              (if abc9 c then
                 [''read_verilog -lib -specify -icells +/quicklogic/pp3/abc9_model.v'',
                  ''abc9 -maxlut 6'']
               else [''abc -lut 6 ''])
            else []) @
           (if hm \<or> family c = ''qlf_k4n8'' then [''abc -lut 4 ''] else []) @
           (if hm \<or> family c = ''pp3'' then map_luts_pp3 h c hm else [])
         else []) @
        [''clean'', ''opt_lut'']
      else [])"

definition map_cells_block :: "config \<Rightarrow> bool \<Rightarrow> (string \<Rightarrow> bool) \<Rightarrow> string list" where
  "map_cells_block c hm chk =
     (if chk ''map_cells'' \<and> (hm \<or> family c = ''qlf_k6n10'' \<or> family c = ''pp3'') then
        [''techmap '' @ ''-map '' @ lib_path c @ family c @ ''/lut_map.v'', ''clean'']
      else [])"

definition check_block :: "(string \<Rightarrow> bool) \<Rightarrow> string list" where
  "check_block chk =
     (if chk ''check'' then [''autoname'', ''hierarchy -check'', ''stat'', ''check -noinit'']
      else [])"

definition iomap_block :: "config \<Rightarrow> bool \<Rightarrow> (string \<Rightarrow> bool) \<Rightarrow> string list" where
  "iomap_block c hm chk =
     (if chk ''iomap'' \<and> (family c = ''pp3'' \<or> hm) then
        [''clkbufmap -inpad ckpad Q:P'',
         ''iopadmap -bits -outpad outpad A:P -inpad inpad Q:P -tinoutpad bipad EN:Q:A:P A:top'']
      else [])"

definition finalize_block :: "config \<Rightarrow> bool \<Rightarrow> (string \<Rightarrow> bool) \<Rightarrow> string list" where
  "finalize_block c hm chk =
     (if chk ''finalize'' then
        (if hm \<or> family c = ''pp3'' then [''setundef -zero -params -undriven''] else []) @
        (if family c = ''pp3'' \<or> edif_file c \<noteq> [] then
           [''hilomap -hicell logic_1 a -locell logic_0 a -singleton A:top'']
         else []) @
        [''opt_clean -purge'', ''check'', ''blackbox =A:whitebox'']
      else [])"

definition blif_block :: "config \<Rightarrow> bool \<Rightarrow> (string \<Rightarrow> bool) \<Rightarrow> string list" where
  "blif_block c hm chk =
     (if chk ''blif'' then
        (if hm \<or> blif_file c \<noteq> [] then
           [''write_blif -param '' @ (if hm then ''<file-name>'' else blif_file c)]
         else [])
      else [])"

definition edif_block :: "config \<Rightarrow> bool \<Rightarrow> (string \<Rightarrow> bool) \<Rightarrow> string list" where
  "edif_block c hm chk =
     (if chk ''edif'' \<and> (hm \<or> edif_file c \<noteq> []) then
        [''splitnets -ports -format ()'',
         ''quicklogic_eqn'',
         ''write_ql_edif -nogndvcc -attrprop -pvector par '' @ currmodule c @ '' '' @
           (if hm then ''<file-name>'' else edif_file c)]
      else [])"

definition verilog_block :: "config \<Rightarrow> bool \<Rightarrow> (string \<Rightarrow> bool) \<Rightarrow> string list" where
  "verilog_block c hm chk =
     (if chk ''verilog'' then
        (if hm \<or> verilog_file c \<noteq> [] then
           [''write_verilog -noattr -nohex '' @ (if hm then ''<file-name>'' else verilog_file c)]
         else [])
      else [])"

text \<open>\<^verbatim>\<open>script\<close>: in help mode the family is replaced first (lines 245-247); then the
  sixteen blocks run in order, the \<^verbatim>\<open>noDFFArgs\<close> of this call threaded through them.\<close>

definition script_family :: "config \<Rightarrow> bool \<Rightarrow> config" where
  "script_family c hm = (if hm then c\<lparr>family := ''<family>''\<rparr> else c)"

definition script :: "host \<Rightarrow> config \<Rightarrow> bool \<Rightarrow> (string \<Rightarrow> bool) \<Rightarrow> string list" where
  "script h c0 hm chk =
     (let c = script_family c0 hm;
          (prepare_cmds, noDFFArgs) = prepare_block c hm chk
      in begin_block c hm chk @ prepare_cmds @ map_dsp_block c hm chk @
         coarse_block noDFFArgs chk @ map_bram_block c hm chk @
         map_ffram_block noDFFArgs chk @ map_gates_block c hm noDFFArgs chk @
         map_ffs_block c hm noDFFArgs chk @ map_luts_block h c hm chk @
         map_cells_block c hm chk @ check_block chk @ iomap_block c hm chk @
         finalize_block c hm chk @ blif_block c hm chk @ edif_block c hm chk @
         verilog_block c hm chk)"

text \<open>
  Modelled from the spec: \<^verbatim>\<open>ScriptPass::run_script\<close> of the host, which is not under src/.
  It runs the script once in real mode, a checkpoint being active when it lies in the
  resume window.
\<close>

definition run_script :: "host \<Rightarrow> config \<Rightarrow> string \<Rightarrow> string \<Rightarrow> string list" where
  "run_script h c from to = script h c False (in_window from to)"

subsection \<open>execute (lines 136-241)\<close>

text \<open>What a run of \<^verbatim>\<open>execute\<close> that raises no error leaves: the flags as resolved, the
  design, the warnings logged and the commands the script issued.\<close>

record outcome =
  out_flags :: config
  out_design :: design
  out_warnings :: "string list"
  out_cmds :: "string list"

definition valid_family :: "string \<Rightarrow> bool" where
  "valid_family f = (\<not> (f \<noteq> ''pp3'' \<and> f \<noteq> ''qlf_k4n8'' \<and> f \<noteq> ''qlf_k6n10'' \<and> f \<noteq> ''qlf_k6n10f''))"

definition initial_st :: "design \<Rightarrow> parse_st" where
  "initial_st d =
     \<lparr> flags = clear_flags\<lparr>lib_path := scratchpad_get_string d ''ql.lib_path'' (lib_path clear_flags)\<rparr>,
       run_from = [], run_to = [] \<rparr>"

text \<open>Line 226: the family override of \<^verbatim>\<open>nosdff\<close>.\<close>

definition family_overrides :: "config \<Rightarrow> config" where
  "family_overrides c = (if family c = ''qlf_k4n8'' then c\<lparr>nosdff := True\<rparr> else c)"

text \<open>Lines 230-233: the default of the delay target \<^verbatim>\<open>abc9.D\<close>; returns the warnings
  logged (the text of \<^verbatim>\<open>log_warning\<close>, without its final newline) and the design.\<close>

definition delay_warning :: string where
  "delay_warning = ''delay target has not been set via SDC or scratchpad; assuming 12 MHz clock.''"

definition delay_target_default :: "config \<Rightarrow> design \<Rightarrow> string list \<times> design" where
  "delay_target_default c d =
     (if abc9 c \<and> scratchpad_get_int d ''abc9.D'' 0 = 0 then
        ([delay_warning], scratchpad_set_int d ''abc9.D'' 500)
      else ([], d))"

text \<open>The loop starts at \<^verbatim>\<open>argidx = 1\<close>; what it returns is the state and the final
  \<^verbatim>\<open>argidx\<close>, the index of the first argument it left.\<close>

definition parse_args :: "string list \<Rightarrow> design \<Rightarrow> parse_st \<times> nat" where
  "parse_args args d =
     (let (st, rest) = parse_flags (drop 1 args) (initial_st d)
      in (st, if args = [] then 1 else length args - length rest))"

definition execute :: "host \<Rightarrow> string list \<Rightarrow> design \<Rightarrow> error + outcome" where
  "execute h args design0 =
     (let (st, argidx) = parse_args args design0
      in case extra_args h args argidx design0 of
           Inl e \<Rightarrow> Inl e
         | Inr d \<Rightarrow>
             if \<not> full_selection d then Inl NotFullySelected
             else if \<not> valid_family (family (flags st)) then Inl (InvalidFamily (family (flags st)))
             else
               (let c = family_overrides (flags st);
                    (warnings, d') = delay_target_default c d
                in Inr \<lparr> out_flags = c, out_design = d', out_warnings = warnings,
                          out_cmds = run_script h c (run_from st) (run_to st) \<rparr>))"

text \<open>The commands a run issues: none when \<^verbatim>\<open>execute\<close> raises.\<close>

definition issued :: "error + outcome \<Rightarrow> string list" where
  "issued r = (case r of Inl e \<Rightarrow> [] | Inr out \<Rightarrow> out_cmds out)"

subsection \<open>Reading a re-typing command\<close>

text \<open>
  How the \<^verbatim>\<open>chtype\<close> commands are counted. A command \<^verbatim>\<open>chtype -set NAME SELECTION\<close> has
  the target type \<open>NAME\<close>, the text up to the next blank, and the selection after it. A
  target \<^verbatim>\<open>TDP36K_..._nonsplit\<close> is a non-split variant and \<^verbatim>\<open>TDP36K_..._split\<close> a split
  one; a selection that starts with \<^verbatim>\<open>t:TDP36K a:is_inferred=0\<close> picks the instantiated
  cells and one that starts with \<^verbatim>\<open>t:TDP36K a:is_inferred=1\<close> the inferred ones.
\<close>

definition chtype_parts :: "string \<Rightarrow> (string \<times> string) option" where
  "chtype_parts cmd =
     (if prefix ''chtype -set '' cmd then
        Some (takeWhile (\<lambda>ch. ch \<noteq> CHR '' '') (drop 12 cmd),
              drop 1 (dropWhile (\<lambda>ch. ch \<noteq> CHR '' '') (drop 12 cmd)))
      else None)"

datatype shape = Nonsplit | Split

datatype origin = Instantiated | Inferred

definition name_shape :: "string \<Rightarrow> shape option" where
  "name_shape name =
     (if \<not> prefix ''TDP36K_'' name then None
      else if suffix ''_nonsplit'' name then Some Nonsplit
      else if suffix ''_split'' name then Some Split
      else None)"

definition selection_origin :: "string \<Rightarrow> origin option" where
  "selection_origin sel =
     (if prefix ''t:TDP36K a:is_inferred=0 '' sel then Some Instantiated
      else if prefix ''t:TDP36K a:is_inferred=1 '' sel then Some Inferred
      else None)"

definition tdp36k_retype :: "string \<Rightarrow> (shape \<times> origin) option" where
  "tdp36k_retype cmd =
     (case chtype_parts cmd of
        None \<Rightarrow> None
      | Some (name, sel) \<Rightarrow>
          (case (name_shape name, selection_origin sel) of
             (Some sh, Some orig) \<Rightarrow> Some (sh, orig)
           | _ \<Rightarrow> None))"

definition count_retypes :: "shape \<Rightarrow> origin \<Rightarrow> string list \<Rightarrow> nat" where
  "count_retypes sh orig cmds = length (filter (\<lambda>cmd. tdp36k_retype cmd = Some (sh, orig)) cmds)"

text \<open>The target type of each re-typing command, from the widths: the instantiated
  variants are named \<^verbatim>\<open>TDP36K_<kind>_A_X<a>_B_X<b>_nonsplit\<close> and
  \<^verbatim>\<open>TDP36K_<kind>_A1_X<a1>_B1_X<b1>_A2_X<a2>_B2_X<b2>_split\<close> with the kind \<^verbatim>\<open>BRAM\<close>,
  \<^verbatim>\<open>FIFO_ASYNC\<close> or \<^verbatim>\<open>FIFO_SYNC\<close>, and the commands for inferred cells use the \<^verbatim>\<open>BRAM\<close>
  names again.\<close>

definition nonsplit_name :: "string \<Rightarrow> int \<Rightarrow> int \<Rightarrow> string" where
  "nonsplit_name kind a b =
     ''TDP36K_'' @ kind @ ''_A_X'' @ show_int a @ ''_B_X'' @ show_int b @ ''_nonsplit''"

definition split_name :: "string \<Rightarrow> int \<Rightarrow> int \<Rightarrow> int \<Rightarrow> int \<Rightarrow> string" where
  "split_name kind a1 b1 a2 b2 =
     ''TDP36K_'' @ kind @ ''_A1_X'' @ show_int a1 @ ''_B1_X'' @ show_int b1 @
     ''_A2_X'' @ show_int a2 @ ''_B2_X'' @ show_int b2 @ ''_split''"

subsection \<open>Concrete inputs\<close>

text \<open>A host whose \<^verbatim>\<open>extra_args\<close> accepts what is left and whose \<^verbatim>\<open>rewrite_filename\<close>
  changes nothing, and a fully selected design with an empty scratch store.\<close>

definition plain_host :: host where
  "plain_host = \<lparr> extra_args = (\<lambda>args argidx d. Inr d), rewrite_filename = (\<lambda>s. s) \<rparr>"

definition fresh_design :: design where
  "fresh_design = \<lparr> scratch_string = Map.empty, scratch_int = Map.empty, full_selection = True \<rparr>"

text \<open>The flags of a run for qlf_k6n10f with \<^verbatim>\<open>-bram_types\<close>.\<close>

definition bram_types_args :: "string list" where
  "bram_types_args = [''synth_quicklogic'', ''-family'', ''qlf_k6n10f'', ''-bram_types'']"

definition bram_types_flags :: config where
  "bram_types_flags = flags (fst (parse_args bram_types_args fresh_design))"

section \<open>Properties\<close>

subsection \<open>Evaluation of the parser on concrete arguments\<close>

lemmas parse_eval =
  parse_args_def parse_flags.simps initial_st_def upd_flags_def clear_flags_def
  scratchpad_get_string_def split_run_def

lemmas execute_eval =
  execute_def valid_family_def family_overrides_def delay_target_default_def
  scratchpad_get_int_def scratchpad_set_int_def Let_def

subsection \<open>The entry controller\<close>

lemma valid_family_iff:
  "valid_family f \<longleftrightarrow> f \<in> {''pp3'', ''qlf_k4n8'', ''qlf_k6n10'', ''qlf_k6n10f''}"
  by (auto simp: valid_family_def)

text \<open>
  C6. Whatever the arguments, when the family they select is none of pp3, qlf_k4n8,
  qlf_k6n10 and qlf_k6n10f, \<^verbatim>\<open>execute\<close> ends in an error and issues no command of any
  checkpoint; when the host accepts the remaining arguments and the design is fully
  selected, the error is the invalid-family error, carrying the family.
\<close>

theorem invalid_family_fatal:
  assumes "family (flags (fst (parse_args args d))) \<notin> {''pp3'', ''qlf_k4n8'', ''qlf_k6n10'', ''qlf_k6n10f''}"
  shows "(\<exists>e. execute h args d = Inl e) \<and> issued (execute h args d) = [] \<and>
         (\<forall>d'. extra_args h args (snd (parse_args args d)) d = Inr d' \<and> full_selection d' \<longrightarrow>
            execute h args d = Inl (InvalidFamily (family (flags (fst (parse_args args d))))))"
proof -
  obtain st argidx where p: "parse_args args d = (st, argidx)"
    by (cases "parse_args args d")
  have nv: "\<not> valid_family (family (flags st))"
    using assms p by (simp add: valid_family_iff)
  show ?thesis
    using nv by (auto simp: p execute_def issued_def split: sum.splits)
qed

theorem invalid_family_fatal_witness:
  "family (flags (fst (parse_args [''synth_quicklogic'', ''-family'', ''xc7''] fresh_design)))
     \<notin> {''pp3'', ''qlf_k4n8'', ''qlf_k6n10'', ''qlf_k6n10f''} \<and>
   execute plain_host [''synth_quicklogic'', ''-family'', ''xc7''] fresh_design = Inl (InvalidFamily ''xc7'') \<and>
   issued (execute plain_host [''synth_quicklogic'', ''-family'', ''xc7''] fresh_design) = []"
proof -
  let ?args = "[''synth_quicklogic'', ''-family'', ''xc7'']"
  have f: "family (flags (fst (parse_args ?args fresh_design))) = ''xc7''"
    by (simp add: parse_eval)
  have h: "family (flags (fst (parse_args ?args fresh_design)))
             \<notin> {''pp3'', ''qlf_k4n8'', ''qlf_k6n10'', ''qlf_k6n10f''}"
    by (simp add: f)
  have e: "extra_args plain_host ?args (snd (parse_args ?args fresh_design)) fresh_design = Inr fresh_design"
    by (simp add: plain_host_def)
  have s: "full_selection fresh_design"
    by (simp add: fresh_design_def)
  from invalid_family_fatal [OF h, of plain_host] e s f h show ?thesis
    by (simp add: issued_def)
qed

text \<open>
  C8. When \<^verbatim>\<open>execute\<close> gets past its checks, the flags it runs the script with have the
  family the arguments selected, and their \<^verbatim>\<open>nosdff\<close> is true for qlf_k4n8 and is the
  value the arguments gave for every other family.
\<close>

theorem nosdff_forced_for_k4n8:
  assumes "extra_args h args (snd (parse_args args d0)) d0 = Inr d"
    and "full_selection d"
    and "family (flags (fst (parse_args args d0))) \<in> {''pp3'', ''qlf_k4n8'', ''qlf_k6n10'', ''qlf_k6n10f''}"
  shows "\<exists>out. execute h args d0 = Inr out \<and>
     family (out_flags out) = family (flags (fst (parse_args args d0))) \<and>
     nosdff (out_flags out) =
       (if family (flags (fst (parse_args args d0))) = ''qlf_k4n8'' then True
        else nosdff (flags (fst (parse_args args d0)))) \<and>
     out_cmds out =
       run_script h (out_flags out) (run_from (fst (parse_args args d0))) (run_to (fst (parse_args args d0)))"
proof -
  obtain st argidx where p: "parse_args args d0 = (st, argidx)"
    by (cases "parse_args args d0")
  have vf: "valid_family (family (flags st))"
    using assms(3) p by (simp add: valid_family_iff)
  from assms(1) p have ea: "extra_args h args argidx d0 = Inr d"
    by simp
  show ?thesis
    using assms(2) vf ea
    by (simp add: p execute_def Let_def family_overrides_def split: prod.splits)
qed

theorem nosdff_forced_for_k4n8_witness:
  "\<not> nosdff (flags (fst (parse_args [''synth_quicklogic''] fresh_design))) \<and>
   (\<exists>out. execute plain_host [''synth_quicklogic''] fresh_design = Inr out \<and>
      family (out_flags out) = ''qlf_k4n8'' \<and> nosdff (out_flags out))"
proof -
  let ?args = "[''synth_quicklogic'']"
  have f: "family (flags (fst (parse_args ?args fresh_design))) = ''qlf_k4n8''"
    by (simp add: parse_eval)
  have n: "\<not> nosdff (flags (fst (parse_args ?args fresh_design)))"
    by (simp add: parse_eval)
  have h: "family (flags (fst (parse_args ?args fresh_design)))
             \<in> {''pp3'', ''qlf_k4n8'', ''qlf_k6n10'', ''qlf_k6n10f''}"
    by (simp add: f)
  have e: "extra_args plain_host ?args (snd (parse_args ?args fresh_design)) fresh_design = Inr fresh_design"
    by (simp add: plain_host_def)
  have s: "full_selection fresh_design"
    by (simp add: fresh_design_def)
  from nosdff_forced_for_k4n8 [OF e s h] f n show ?thesis
    by auto
qed

text \<open>
  C9, as the code has it. When \<^verbatim>\<open>execute\<close> gets past its checks it returns an outcome,
  whatever the scratch store holds. If ABC9 is in use (no \<^verbatim>\<open>-no_abc9\<close>) and \<^verbatim>\<open>abc9.D\<close>
  reads as 0 (absent, or present with the value 0), the store gets \<^verbatim>\<open>abc9.D = 500\<close> and
  one warning is logged; otherwise the design is unchanged and nothing is logged.
\<close>

theorem delay_target_defaulted:
  assumes "extra_args h args (snd (parse_args args d0)) d0 = Inr d"
    and "full_selection d"
    and "family (flags (fst (parse_args args d0))) \<in> {''pp3'', ''qlf_k4n8'', ''qlf_k6n10'', ''qlf_k6n10f''}"
  shows "\<exists>out. execute h args d0 = Inr out \<and>
     (if abc9 (flags (fst (parse_args args d0))) \<and> scratchpad_get_int d ''abc9.D'' 0 = 0
      then out_design out = scratchpad_set_int d ''abc9.D'' 500 \<and> out_warnings out = [delay_warning]
      else out_design out = d \<and> out_warnings out = [])"
proof -
  obtain st argidx where p: "parse_args args d0 = (st, argidx)"
    by (cases "parse_args args d0")
  have vf: "valid_family (family (flags st))"
    using assms(3) p by (simp add: valid_family_iff)
  have ab: "abc9 (family_overrides (flags st)) = abc9 (flags st)"
    by (simp add: family_overrides_def)
  from assms(1) p have ea: "extra_args h args argidx d0 = Inr d"
    by simp
  show ?thesis
    using assms(2) vf ea ab
    by (simp add: p execute_def Let_def delay_target_default_def split: prod.splits)
qed

theorem delay_target_defaulted_witness:
  "scratch_int fresh_design ''abc9.D'' = None \<and>
   (\<exists>out. execute plain_host [''synth_quicklogic''] fresh_design = Inr out \<and>
      scratch_int (out_design out) ''abc9.D'' = Some 500 \<and> out_warnings out = [delay_warning])"
proof -
  let ?args = "[''synth_quicklogic'']"
  have f: "family (flags (fst (parse_args ?args fresh_design))) = ''qlf_k4n8''"
    by (simp add: parse_eval)
  have a: "abc9 (flags (fst (parse_args ?args fresh_design)))"
    by (simp add: parse_eval)
  have h: "family (flags (fst (parse_args ?args fresh_design)))
             \<in> {''pp3'', ''qlf_k4n8'', ''qlf_k6n10'', ''qlf_k6n10f''}"
    by (simp add: f)
  have e: "extra_args plain_host ?args (snd (parse_args ?args fresh_design)) fresh_design = Inr fresh_design"
    by (simp add: plain_host_def)
  have s: "full_selection fresh_design"
    by (simp add: fresh_design_def)
  have z: "scratchpad_get_int fresh_design ''abc9.D'' 0 = 0"
    by (simp add: scratchpad_get_int_def fresh_design_def)
  have n: "scratch_int fresh_design ''abc9.D'' = None"
    by (simp add: fresh_design_def)
  from delay_target_defaulted [OF e s h] a z n show ?thesis
    by (auto simp: scratchpad_set_int_def)
qed

text \<open>The statement of the specification fails with \<^verbatim>\<open>-no_abc9\<close>: \<^verbatim>\<open>abc9.D\<close> is absent at entry, the run
  goes on, and the store still has no \<^verbatim>\<open>abc9.D\<close> and no warning was logged.\<close>

theorem delay_target_counterexample:
  "scratch_int fresh_design ''abc9.D'' = None \<and>
   execute plain_host [''synth_quicklogic'', ''-no_abc9''] fresh_design =
     Inr \<lparr> out_flags = clear_flags\<lparr>abc9 := False, nosdff := True\<rparr>,
           out_design = fresh_design,
           out_warnings = [],
           out_cmds = run_script plain_host (clear_flags\<lparr>abc9 := False, nosdff := True\<rparr>) [] [] \<rparr>"
  by (simp add: parse_eval execute_eval plain_host_def fresh_design_def)

subsection \<open>The resume window: parsing and membership\<close>

lemma str_find_absent: "c \<notin> set s \<Longrightarrow> str_find c s = None"
  by (induction s) auto

lemma str_find_first: "c \<notin> set f \<Longrightarrow> str_find c (f @ c # t) = Some (length f)"
  by (induction f) auto

lemma split_run_single: "CHR '':'' \<notin> set s \<Longrightarrow> split_run s = (s, s)"
  by (simp add: split_run_def str_find_absent)

lemma split_run_pair: "CHR '':'' \<notin> set f \<Longrightarrow> split_run (f @ CHR '':'' # t) = (f, t)"
  by (simp add: split_run_def str_find_first)

lemma parse_flags_run_step:
  "parse_flags (''-run'' # v # rest) st =
     parse_flags rest (st\<lparr>run_from := fst (split_run v), run_to := snd (split_run v)\<rparr>)"
  by (simp add: parse_flags.simps)

lemma upd_flags_window [simp]:
  "run_from (upd_flags g st) = run_from st" "run_to (upd_flags g st) = run_to st"
  by (simp_all add: upd_flags_def)

lemma parse_flags_no_run:
  "''-run'' \<notin> set args \<Longrightarrow>
     run_from (fst (parse_flags args st)) = run_from st \<and>
     run_to (fst (parse_flags args st)) = run_to st"
proof (induction args st rule: parse_flags.induct)
  case (1 st)
  then show ?case by (simp add: parse_flags.simps)
next
  case (2 a rest st)
  from "2.prems" have a: "a \<noteq> ''-run''" and r: "''-run'' \<notin> set rest" by auto
  have t: "rest \<noteq> [] \<Longrightarrow> ''-run'' \<notin> set (tl rest)"
    using r by (auto dest: list.set_sel(2))
  show ?case
    using a r t "2.IH" 
    by (simp add: parse_flags.simps(2) [of a rest st])
qed

lemma parse_args_no_run:
  assumes "''-run'' \<notin> set args"
  shows "run_from (fst (parse_args args d)) = [] \<and> run_to (fst (parse_args args d)) = []"
proof -
  have "''-run'' \<notin> set (drop 1 args)"
    using assms by (auto dest: in_set_dropD)
  from parse_flags_no_run [OF this, of "initial_st d"] show ?thesis
    by (simp add: parse_args_def initial_st_def split_def Let_def)
qed

lemma index_of_Some: "index_of l xs = Some i \<Longrightarrow> i < length xs \<and> xs ! i = l"
  by (induction xs arbitrary: i) (auto split: if_splits option.splits)

lemma index_of_mem: "l \<in> set xs \<Longrightarrow> \<exists>i. index_of l xs = Some i"
proof (induction xs)
  case Nil
  then show ?case by simp
next
  case (Cons x xs)
  show ?case
  proof (cases "x = l")
    case True
    then show ?thesis by simp
  next
    case False
    with Cons obtain i where "index_of l xs = Some i" by auto
    with False show ?thesis by simp
  qed
qed

lemma index_of_empty_name: "index_of [] checkpoints = None"
  by (simp add: checkpoints_def)

lemma index_of_inj:
  "index_of l xs = Some i \<Longrightarrow> index_of s xs = Some i \<Longrightarrow> l = s"
  by (drule index_of_Some, drule index_of_Some) simp

lemma in_window_single:
  assumes "s \<in> set checkpoints"
  shows "in_window s s l \<longleftrightarrow> l = s"
proof -
  from assms obtain a where a: "index_of s checkpoints = Some a"
    using index_of_mem by blast
  have ne: "s \<noteq> []"
  proof
    assume "s = []"
    with a index_of_empty_name show False by simp
  qed
  have lo: "window_lo s = Some a" and hi: "window_hi s = Some a"
    using a ne by (simp_all add: window_lo_def window_hi_def)
  show ?thesis
  proof (cases "index_of l checkpoints")
    case None
    have "l \<noteq> s" using None a by auto
    moreover have "\<not> in_window s s l" by (simp add: in_window_def lo hi None)
    ultimately show ?thesis by simp
  next
    case (Some i)
    have w: "in_window s s l \<longleftrightarrow> i = a"
      by (simp add: in_window_def lo hi Some eq_iff conj_commute)
    have "i = a \<longleftrightarrow> l = s"
    proof
      assume "i = a"
      with Some a show "l = s" by (blast intro: index_of_inj)
    next
      assume "l = s"
      with Some a show "i = a" by simp
    qed
    with w show ?thesis by simp
  qed
qed

lemma in_window_full: "l \<in> set checkpoints \<Longrightarrow> in_window [] [] l"
proof -
  assume "l \<in> set checkpoints"
  then obtain i where i: "index_of l checkpoints = Some i"
    using index_of_mem by blast
  from index_of_Some [OF i] have "i \<le> length checkpoints - 1" by arith
  then show ?thesis
    using i by (simp add: in_window_def window_lo_def window_hi_def)
qed

lemma in_window_span:
  assumes "index_of f checkpoints = Some a" "index_of t checkpoints = Some b"
    "index_of l checkpoints = Some i"
  shows "in_window f t l \<longleftrightarrow> a \<le> i \<and> i \<le> b"
proof -
  have "f \<noteq> []" "t \<noteq> []" using assms index_of_empty_name by auto
  then show ?thesis using assms by (simp add: in_window_def window_lo_def window_hi_def)
qed

text \<open>
  C10. The \<^verbatim>\<open>-run\<close> option sets both ends of the window from its value: a value with
  no colon gives both ends that value, and then, when it names a checkpoint, exactly that
  checkpoint is in the window; a value \<open>from:to\<close> gives the ends \<open>from\<close> and \<open>to\<close>,
  and a checkpoint is in the window when it lies between them in the order of the
  checkpoints; when no argument is \<^verbatim>\<open>-run\<close> both ends stay empty, and every checkpoint
  is in the window. The parsing is that of lines 143-152; membership is that of the
  resume window as modelled above.
\<close>

theorem run_window_resolution:
  "parse_flags (''-run'' # v # rest) st =
     parse_flags rest (st\<lparr>run_from := fst (split_run v), run_to := snd (split_run v)\<rparr>) \<and>
   (CHR '':'' \<notin> set s \<longrightarrow>
      split_run s = (s, s) \<and> (s \<in> set checkpoints \<longrightarrow> (in_window s s l \<longleftrightarrow> l = s))) \<and>
   (CHR '':'' \<notin> set f \<longrightarrow> split_run (f @ '':'' @ t) = (f, t)) \<and>
   (index_of f checkpoints = Some a \<and> index_of t checkpoints = Some b \<and>
    index_of k checkpoints = Some i \<longrightarrow> (in_window f t k \<longleftrightarrow> a \<le> i \<and> i \<le> b)) \<and>
   (''-run'' \<notin> set args \<longrightarrow>
      run_from (fst (parse_args args d)) = [] \<and> run_to (fst (parse_args args d)) = [] \<and>
      (m \<in> set checkpoints \<longrightarrow> in_window [] [] m))"
  using parse_flags_run_step [of v rest st] split_run_single [of s] in_window_single [of s l]
    split_run_pair [of f t] in_window_span [of f a t b k i] parse_args_no_run [of args d]
    in_window_full [of m]
  by simp

theorem run_window_resolution_witness:
  "run_from (fst (parse_flags [''-run'', ''map_luts''] (initial_st fresh_design))) = ''map_luts'' \<and>
   run_to (fst (parse_flags [''-run'', ''map_luts''] (initial_st fresh_design))) = ''map_luts'' \<and>
   in_window ''map_luts'' ''map_luts'' ''map_luts'' \<and>
   \<not> in_window ''map_luts'' ''map_luts'' ''coarse'' \<and>
   split_run ''begin:map_gates'' = (''begin'', ''map_gates'') \<and>
   in_window ''begin'' ''map_gates'' ''coarse'' \<and>
   \<not> in_window ''begin'' ''map_gates'' ''map_ffs'' \<and>
   run_from (fst (parse_args [''synth_quicklogic'', ''-family'', ''pp3''] fresh_design)) = [] \<and>
   run_to (fst (parse_args [''synth_quicklogic'', ''-family'', ''pp3''] fresh_design)) = [] \<and>
   in_window [] [] ''edif''"
proof -
  have c1: "CHR '':'' \<notin> set ''map_luts''" and c2: "CHR '':'' \<notin> set ''begin''"
    by simp_all
  have m1: "''map_luts'' \<in> set checkpoints" and m2: "''edif'' \<in> set checkpoints"
    by (simp_all add: checkpoints_def)
  have i1: "index_of ''begin'' checkpoints = Some 0"
    and i2: "index_of ''map_gates'' checkpoints = Some 6"
    and i3: "index_of ''coarse'' checkpoints = Some 3"
    and i4: "index_of ''map_ffs'' checkpoints = Some 7"
    by (simp_all add: checkpoints_def)
  have n: "''-run'' \<notin> set [''synth_quicklogic'', ''-family'', ''pp3'']"
    by simp
  have e: "parse_flags [] st = (st, [])" for st
    by (simp add: parse_flags.simps)
  from run_window_resolution [of "''map_luts''" "[]" "initial_st fresh_design" "''map_luts''"
      "''map_luts''" "''begin''" "''map_gates''" 0 6 "''coarse''" 3
      "[''synth_quicklogic'', ''-family'', ''pp3'']" fresh_design "''edif''"]
    run_window_resolution [of "''map_luts''" "[]" "initial_st fresh_design" "''map_luts''"
      "''coarse''" "''begin''" "''map_gates''" 0 6 "''map_ffs''" 7
      "[''synth_quicklogic'', ''-family'', ''pp3'']" fresh_design "''edif''"]
    c1 c2 m1 m2 i1 i2 i3 i4 n
  show ?thesis
    by (simp add: e)
qed

subsection \<open>DSP inference\<close>

lemmas show_eval = show_nat.simps show_int_def digit_char_def

lemma map_dsp_block_ungated: "map_dsp_block c hm chk = map_dsp_body c hm"
  by (simp add: map_dsp_block_def comma_def literal_nonnull_def)

text \<open>
  C4. For qlf_k6n10f in real mode with DSP inference on, the \<^verbatim>\<open>map_dsp\<close> block issues:
  the two preparation passes, then for the rule with widths 20 and 18 and target
  \<^verbatim>\<open>$__QL_MUL20X18\<close> its techmap followed at once by the re-typing of the soft multipliers
  left, then the same pair for the rule with widths 10 and 9 and target \<^verbatim>\<open>$__QL_MUL10X9\<close>,
  then the DSP cell map, \<^verbatim>\<open>ql_dsp_simd\<close>, the final map and \<^verbatim>\<open>ql_dsp_io_regs\<close>, with no
  further condition. The maximum widths of the rule list strictly decrease.
\<close>

theorem dsp_rules_wide_before_narrow:
  assumes "family c = ''qlf_k6n10f''" and "\<not> nodsp c"
  shows "map_dsp_block c False chk =
     [''wreduce t:$mul'',
      ''ql_dsp_macc'' @ use_dsp_cfg_params c,
      ''techmap -map +/mul2dsp.v -D DSP_A_MAXWIDTH=20 -D DSP_B_MAXWIDTH=18 -D DSP_A_MINWIDTH=11 -D DSP_B_MINWIDTH=10 -D DSP_NAME=$__QL_MUL20X18'',
      ''chtype -set $mul t:$__soft_mul'',
      ''techmap -map +/mul2dsp.v -D DSP_A_MAXWIDTH=10 -D DSP_B_MAXWIDTH=9 -D DSP_A_MINWIDTH=4 -D DSP_B_MINWIDTH=4 -D DSP_NAME=$__QL_MUL10X9'',
      ''chtype -set $mul t:$__soft_mul'',
      ''techmap -map '' @ lib_path c @ ''qlf_k6n10f/dsp_map.v -D USE_DSP_CFG_PARAMS='' @
        (if use_dsp_cfg_params c = [] then ''0'' else ''1''),
      ''ql_dsp_simd'',
      ''techmap -map '' @ lib_path c @ ''qlf_k6n10f/dsp_final_map.v'',
      ''ql_dsp_io_regs''] \<and>
   sorted_wrt (\<lambda>r s. a_maxwidth s < a_maxwidth r \<and> b_maxwidth s < b_maxwidth r) dsp_rules \<and>
   map (\<lambda>r. (a_maxwidth r, b_maxwidth r, type r)) dsp_rules =
     [(20, 18, ''$__QL_MUL20X18''), (10, 9, ''$__QL_MUL10X9'')]"
proof -
  have r: "dsp_rules_cmds dsp_rules =
     [''techmap -map +/mul2dsp.v -D DSP_A_MAXWIDTH=20 -D DSP_B_MAXWIDTH=18 -D DSP_A_MINWIDTH=11 -D DSP_B_MINWIDTH=10 -D DSP_NAME=$__QL_MUL20X18'',
      ''chtype -set $mul t:$__soft_mul'',
      ''techmap -map +/mul2dsp.v -D DSP_A_MAXWIDTH=10 -D DSP_B_MAXWIDTH=9 -D DSP_A_MINWIDTH=4 -D DSP_B_MINWIDTH=4 -D DSP_NAME=$__QL_MUL10X9'',
      ''chtype -set $mul t:$__soft_mul'']"
    by (simp add: dsp_rules_cmds_def dsp_rules_def dsp_rule_techmap_def show_eval)
  have b: "map_dsp_body c False = map_dsp_k6n10f c"
    using assms by (simp add: map_dsp_body_def)
  have s: "sorted_wrt (\<lambda>r s. a_maxwidth s < a_maxwidth r \<and> b_maxwidth s < b_maxwidth r) dsp_rules"
    by (simp add: dsp_rules_def)
  have m: "map (\<lambda>r. (a_maxwidth r, b_maxwidth r, type r)) dsp_rules =
     [(20, 18, ''$__QL_MUL20X18''), (10, 9, ''$__QL_MUL10X9'')]"
    by (simp add: dsp_rules_def)
  have "map_dsp_k6n10f c =
     [''wreduce t:$mul'',
      ''ql_dsp_macc'' @ use_dsp_cfg_params c,
      ''techmap -map +/mul2dsp.v -D DSP_A_MAXWIDTH=20 -D DSP_B_MAXWIDTH=18 -D DSP_A_MINWIDTH=11 -D DSP_B_MINWIDTH=10 -D DSP_NAME=$__QL_MUL20X18'',
      ''chtype -set $mul t:$__soft_mul'',
      ''techmap -map +/mul2dsp.v -D DSP_A_MAXWIDTH=10 -D DSP_B_MAXWIDTH=9 -D DSP_A_MINWIDTH=4 -D DSP_B_MINWIDTH=4 -D DSP_NAME=$__QL_MUL10X9'',
      ''chtype -set $mul t:$__soft_mul'',
      ''techmap -map '' @ lib_path c @ ''qlf_k6n10f/dsp_map.v -D USE_DSP_CFG_PARAMS='' @
        (if use_dsp_cfg_params c = [] then ''0'' else ''1''),
      ''ql_dsp_simd'',
      ''techmap -map '' @ lib_path c @ ''qlf_k6n10f/dsp_final_map.v'',
      ''ql_dsp_io_regs'']"
    using assms(1) by (simp add: map_dsp_k6n10f_def r dsp_map_cmd_def)
  with b s m show ?thesis
    by (simp only: map_dsp_block_ungated simp_thms)
qed

theorem dsp_rules_wide_before_narrow_witness:
  "family (clear_flags\<lparr>family := ''qlf_k6n10f''\<rparr>) = ''qlf_k6n10f'' \<and>
   \<not> nodsp (clear_flags\<lparr>family := ''qlf_k6n10f''\<rparr>) \<and>
   map_dsp_block (clear_flags\<lparr>family := ''qlf_k6n10f''\<rparr>) False (\<lambda>l. True) =
     [''wreduce t:$mul'',
      ''ql_dsp_macc'',
      ''techmap -map +/mul2dsp.v -D DSP_A_MAXWIDTH=20 -D DSP_B_MAXWIDTH=18 -D DSP_A_MINWIDTH=11 -D DSP_B_MINWIDTH=10 -D DSP_NAME=$__QL_MUL20X18'',
      ''chtype -set $mul t:$__soft_mul'',
      ''techmap -map +/mul2dsp.v -D DSP_A_MAXWIDTH=10 -D DSP_B_MAXWIDTH=9 -D DSP_A_MINWIDTH=4 -D DSP_B_MINWIDTH=4 -D DSP_NAME=$__QL_MUL10X9'',
      ''chtype -set $mul t:$__soft_mul'',
      ''techmap -map +/quicklogic/qlf_k6n10f/dsp_map.v -D USE_DSP_CFG_PARAMS=0'',
      ''ql_dsp_simd'',
      ''techmap -map +/quicklogic/qlf_k6n10f/dsp_final_map.v'',
      ''ql_dsp_io_regs'']"
proof -
  let ?c = "clear_flags\<lparr>family := ''qlf_k6n10f''\<rparr>"
  have f: "family ?c = ''qlf_k6n10f''" by simp
  have n: "\<not> nodsp ?c" by (simp add: clear_flags_def)
  have u: "use_dsp_cfg_params ?c = []" and l: "lib_path ?c = ''+/quicklogic/''"
    by (simp_all add: clear_flags_def)
  from dsp_rules_wide_before_narrow [OF f n, of "\<lambda>l. True"] f n show ?thesis
    by (simp add: u l)
qed

lemma set_for2: "set (for2 ws body) = (\<Union>a\<in>set ws. \<Union>b\<in>set ws. set (body a b))"
  by (simp add: for2_def)

lemma set_for4:
  "set (for4 ws body) =
     (\<Union>a1\<in>set ws. \<Union>b1\<in>set ws. \<Union>a2\<in>set ws. \<Union>b2\<in>set ws. set (body a1 b1 a2 b2))"
  by (simp add: for4_def)

lemmas chtype_defs =
  chtype_bram_nonsplit_def chtype_fifo_async_nonsplit_def chtype_fifo_sync_nonsplit_def
  chtype_bram_split_def chtype_fifo_async_split_def chtype_fifo_sync_split_def
  chtype_inferred_nonsplit_def chtype_inferred_split_def

lemma bram_types_cmds_are_chtype:
  assumes "cmd \<in> set bram_types_cmds"
  shows "prefix ''chtype -set TDP36K_'' cmd"
  using assms
  by (auto simp: bram_types_cmds_def nonsplit_cmds_def split_cmds_def inferred_nonsplit_cmds_def
      inferred_split_cmds_def set_for2 set_for4 chtype_defs)

lemma not_ql_dsp_chtype: "prefix ''chtype -set TDP36K_'' cmd \<Longrightarrow> \<not> prefix ''ql_dsp'' cmd"
  by (auto simp: prefix_def)

lemma no_ql_dsp_begin: "cmd \<in> set (begin_block c hm chk) \<Longrightarrow> \<not> prefix ''ql_dsp'' cmd"
  by (auto simp: begin_block_def split: if_splits)

lemma no_ql_dsp_prepare: "cmd \<in> set (fst (prepare_block c hm chk)) \<Longrightarrow> \<not> prefix ''ql_dsp'' cmd"
  by (auto simp: prepare_block_def split: if_splits)

lemma no_ql_dsp_coarse: "cmd \<in> set (coarse_block n chk) \<Longrightarrow> \<not> prefix ''ql_dsp'' cmd"
  by (auto simp: coarse_block_def split: if_splits)

lemma no_ql_dsp_map_bram: "cmd \<in> set (map_bram_block c hm chk) \<Longrightarrow> \<not> prefix ''ql_dsp'' cmd"
  by (auto simp: map_bram_block_def map_bram_body_def split: if_splits
      dest: bram_types_cmds_are_chtype [THEN not_ql_dsp_chtype])

lemma no_ql_dsp_map_ffram: "cmd \<in> set (map_ffram_block n chk) \<Longrightarrow> \<not> prefix ''ql_dsp'' cmd"
  by (auto simp: map_ffram_block_def split: if_splits)

lemma no_ql_dsp_map_gates: "cmd \<in> set (map_gates_block c hm n chk) \<Longrightarrow> \<not> prefix ''ql_dsp'' cmd"
  by (auto simp: map_gates_block_def split: if_splits)

lemma no_ql_dsp_map_ffs: "cmd \<in> set (map_ffs_block c hm n chk) \<Longrightarrow> \<not> prefix ''ql_dsp'' cmd"
  by (auto simp: map_ffs_block_def map_ffs_family_def split: if_splits)

lemma no_ql_dsp_map_luts: "cmd \<in> set (map_luts_block h c hm chk) \<Longrightarrow> \<not> prefix ''ql_dsp'' cmd"
  by (auto simp: map_luts_block_def map_luts_pp3_def split: if_splits)

lemma no_ql_dsp_map_cells: "cmd \<in> set (map_cells_block c hm chk) \<Longrightarrow> \<not> prefix ''ql_dsp'' cmd"
  by (auto simp: map_cells_block_def split: if_splits)

lemma no_ql_dsp_check: "cmd \<in> set (check_block chk) \<Longrightarrow> \<not> prefix ''ql_dsp'' cmd"
  by (auto simp: check_block_def split: if_splits)

lemma no_ql_dsp_iomap: "cmd \<in> set (iomap_block c hm chk) \<Longrightarrow> \<not> prefix ''ql_dsp'' cmd"
  by (auto simp: iomap_block_def split: if_splits)

lemma no_ql_dsp_finalize: "cmd \<in> set (finalize_block c hm chk) \<Longrightarrow> \<not> prefix ''ql_dsp'' cmd"
  by (auto simp: finalize_block_def split: if_splits)

lemma no_ql_dsp_blif: "cmd \<in> set (blif_block c hm chk) \<Longrightarrow> \<not> prefix ''ql_dsp'' cmd"
  by (auto simp: blif_block_def split: if_splits)

lemma no_ql_dsp_edif: "cmd \<in> set (edif_block c hm chk) \<Longrightarrow> \<not> prefix ''ql_dsp'' cmd"
  by (auto simp: edif_block_def split: if_splits)

lemma no_ql_dsp_verilog: "cmd \<in> set (verilog_block c hm chk) \<Longrightarrow> \<not> prefix ''ql_dsp'' cmd"
  by (auto simp: verilog_block_def split: if_splits)

lemmas no_ql_dsp_blocks =
  no_ql_dsp_begin no_ql_dsp_prepare no_ql_dsp_coarse no_ql_dsp_map_bram no_ql_dsp_map_ffram
  no_ql_dsp_map_gates no_ql_dsp_map_ffs no_ql_dsp_map_luts no_ql_dsp_map_cells no_ql_dsp_check
  no_ql_dsp_iomap no_ql_dsp_finalize no_ql_dsp_blif no_ql_dsp_edif no_ql_dsp_verilog

lemma script_blocks:
  "set (script h c False chk) =
     set (begin_block c False chk) \<union> set (fst (prepare_block c False chk)) \<union>
     set (map_dsp_block c False chk) \<union>
     set (coarse_block (snd (prepare_block c False chk)) chk) \<union>
     set (map_bram_block c False chk) \<union>
     set (map_ffram_block (snd (prepare_block c False chk)) chk) \<union>
     set (map_gates_block c False (snd (prepare_block c False chk)) chk) \<union>
     set (map_ffs_block c False (snd (prepare_block c False chk)) chk) \<union>
     set (map_luts_block h c False chk) \<union> set (map_cells_block c False chk) \<union>
     set (check_block chk) \<union> set (iomap_block c False chk) \<union>
     set (finalize_block c False chk) \<union> set (blif_block c False chk) \<union>
     set (edif_block c False chk) \<union> set (verilog_block c False chk)"
  by (simp add: script_def script_family_def split_def Let_def Un_assoc)

text \<open>
  C5. In real mode with \<^verbatim>\<open>-no_dsp\<close> set, the \<^verbatim>\<open>map_dsp\<close> block issues no command, for
  every family and whatever the resume window, and no command of the whole script
  calls one of the DSP passes \<^verbatim>\<open>ql_dsp\<close>, \<^verbatim>\<open>ql_dsp_macc\<close>, \<^verbatim>\<open>ql_dsp_simd\<close>, \<^verbatim>\<open>ql_dsp_io_regs\<close>.
\<close>

theorem no_dsp_issues_no_dsp_command:
  assumes "nodsp c"
  shows "map_dsp_block c False chk = [] \<and>
         (\<forall>cmd \<in> set (script h c False chk). \<not> prefix ''ql_dsp'' cmd)"
proof -
  have e: "map_dsp_block c False chk = []"
    using assms by (simp add: map_dsp_block_ungated map_dsp_body_def)
  have "\<not> prefix ''ql_dsp'' cmd" if "cmd \<in> set (script h c False chk)" for cmd
    using that unfolding script_blocks e
    by (auto dest: no_ql_dsp_blocks)
  with e show ?thesis by blast
qed

theorem no_dsp_issues_no_dsp_command_witness:
  "nodsp (flags (fst (parse_args [''synth_quicklogic'', ''-family'', ''qlf_k6n10f'', ''-no_dsp''] fresh_design))) \<and>
   map_dsp_block (flags (fst (parse_args [''synth_quicklogic'', ''-family'', ''qlf_k6n10f'', ''-no_dsp''] fresh_design)))
     False (\<lambda>l. True) = [] \<and>
   \<not> prefix ''ql_dsp'' (''techmap -map +/cmp2lut.v -D LUT_WIDTH=4'')"
proof -
  let ?c = "flags (fst (parse_args [''synth_quicklogic'', ''-family'', ''qlf_k6n10f'', ''-no_dsp''] fresh_design))"
  have n: "nodsp ?c"
    by (simp add: parse_eval)
  have m: "''techmap -map +/cmp2lut.v -D LUT_WIDTH=4'' \<in> set (script plain_host ?c False (\<lambda>l. True))"
    unfolding script_blocks by (simp add: coarse_block_def)
  from no_dsp_issues_no_dsp_command [OF n, of "\<lambda>l. True" plain_host] n m show ?thesis
    by blast
qed

subsection \<open>Evaluation of the script on concrete flags\<close>

lemmas window_eval = in_window_def window_lo_def window_hi_def checkpoints_def

lemmas block_eval =
  begin_block_def prepare_block_def map_dsp_block_ungated map_dsp_body_def coarse_block_def
  map_bram_block_def map_bram_body_def map_ffram_block_def map_gates_block_def map_ffs_block_def
  map_ffs_family_def map_luts_block_def map_luts_pp3_def map_cells_block_def check_block_def
  iomap_block_def finalize_block_def blif_block_def edif_block_def verilog_block_def
  family_path_def readVelArgs_def noDFFArgs_prepare_def legalizeArgs_def abcArgs_def
  map_dsp_k6n10_def

lemmas script_eval = run_script_def script_def script_family_def block_eval window_eval

subsection \<open>The resume window and the blocks\<close>

lemma other_blocks_respect_window:
  "\<not> chk ''begin'' \<Longrightarrow> begin_block c False chk = []"
  "\<not> chk ''prepare'' \<Longrightarrow> prepare_block c False chk = ([], [])"
  "\<not> chk ''coarse'' \<Longrightarrow> coarse_block n chk = []"
  "\<not> chk ''map_bram'' \<Longrightarrow> map_bram_block c False chk = []"
  "\<not> chk ''map_ffram'' \<Longrightarrow> map_ffram_block n chk = []"
  "\<not> chk ''map_gates'' \<Longrightarrow> map_gates_block c False n chk = []"
  "\<not> chk ''map_ffs'' \<Longrightarrow> map_ffs_block c False n chk = []"
  "\<not> chk ''map_luts'' \<Longrightarrow> map_luts_block h c False chk = []"
  "\<not> chk ''map_cells'' \<Longrightarrow> map_cells_block c False chk = []"
  "\<not> chk ''check'' \<Longrightarrow> check_block chk = []"
  "\<not> chk ''iomap'' \<Longrightarrow> iomap_block c False chk = []"
  "\<not> chk ''finalize'' \<Longrightarrow> finalize_block c False chk = []"
  "\<not> chk ''blif'' \<Longrightarrow> blif_block c False chk = []"
  "\<not> chk ''edif'' \<Longrightarrow> edif_block c False chk = []"
  "\<not> chk ''verilog'' \<Longrightarrow> verilog_block c False chk = []"
  by (simp_all add: begin_block_def prepare_block_def coarse_block_def map_bram_block_def
      map_ffram_block_def map_gates_block_def map_ffs_block_def map_luts_block_def
      map_cells_block_def check_block_def iomap_block_def finalize_block_def blif_block_def
      edif_block_def verilog_block_def)

text \<open>
  C2, at a failing input. With \<^verbatim>\<open>-family qlf_k6n10 -run check\<close> only the checkpoint
  \<^verbatim>\<open>check\<close> is in the resume window; \<^verbatim>\<open>map_dsp\<close> is outside it, and the run still issues
  the ten commands of the \<^verbatim>\<open>map_dsp\<close> block before the four of \<^verbatim>\<open>check\<close>.
\<close>

theorem map_dsp_ignores_window:
  "\<not> in_window ''check'' ''check'' ''map_dsp'' \<and>
   issued (execute plain_host [''synth_quicklogic'', ''-family'', ''qlf_k6n10'', ''-run'', ''check''] fresh_design) =
     [''memory_dff'',
      ''wreduce t:$mul'',
      ''techmap -map +/mul2dsp.v -map +/quicklogic/qlf_k6n10/dsp_map.v -D DSP_A_MAXWIDTH=16 -D DSP_B_MAXWIDTH=16 -D DSP_A_MINWIDTH=2 -D DSP_B_MINWIDTH=2 -D DSP_Y_MINWIDTH=11 -D DSP_NAME=$__MUL16X16'',
      ''select a:mul2dsp'',
      ''setattr -unset mul2dsp'',
      ''opt_expr -fine'',
      ''wreduce'',
      ''select -clear'',
      ''ql_dsp'',
      ''chtype -set $mul t:$__soft_mul'',
      ''autoname'', ''hierarchy -check'', ''stat'', ''check -noinit'']"
  by (simp add: issued_def parse_eval execute_eval plain_host_def fresh_design_def script_eval)

text \<open>
  C3, at a failing input. For the default family qlf_k4n8, a run with the window
  \<^verbatim>\<open>begin:map_gates\<close> followed, on the design it leaves, by a run with the window
  \<^verbatim>\<open>map_ffs:verilog\<close> does not issue the commands of the single run \<^verbatim>\<open>begin:verilog\<close>. The
  three runs resolve the same flags. The second run starts with an empty \<^verbatim>\<open>noDFFArgs\<close>,
  since \<^verbatim>\<open>prepare\<close> is outside its window, and closes \<^verbatim>\<open>map_ffs\<close> with \<^verbatim>\<open>opt\<close>; the single
  run issues \<^verbatim>\<open>opt -nosdff -nodffe\<close> at that place and is otherwise the same.
\<close>

theorem resumed_run_loses_noDFFArgs:
  "(case execute plain_host [''synth_quicklogic'', ''-run'', ''begin:map_gates''] fresh_design of
      Inl e \<Rightarrow> False
    | Inr first \<Rightarrow>
       (case execute plain_host [''synth_quicklogic'', ''-run'', ''map_ffs:verilog''] (out_design first) of
          Inl e \<Rightarrow> False
        | Inr second \<Rightarrow>
           (case execute plain_host [''synth_quicklogic'', ''-run'', ''begin:verilog''] fresh_design of
              Inl e \<Rightarrow> False
            | Inr full \<Rightarrow>
                out_flags first = out_flags full \<and> out_flags second = out_flags full \<and>
                out_cmds first @ out_cmds second \<noteq> out_cmds full \<and>
                out_cmds second =
                  [''opt_expr'',
                   ''shregmap -minlen 8 -maxlen 8'',
                   ''dfflegalize -cell $_DFF_P_ 0 -cell $_DFF_P??_ 0 -cell $_DFF_N_ 0 -cell $_DFF_N??_ 0 -cell $_DFFSR_???_ 0'',
                   ''techmap  -map +/techmap.v -map +/quicklogic/qlf_k4n8/ffs_map.v'',
                   ''opt_merge'', ''opt_clean'', ''opt'',
                   ''abc -lut 4 '', ''clean'', ''opt_lut'',
                   ''autoname'', ''hierarchy -check'', ''stat'', ''check -noinit'',
                   ''opt_clean -purge'', ''check'', ''blackbox =A:whitebox''] \<and>
                out_cmds full = out_cmds first @ (out_cmds second)[6 := ''opt -nosdff -nodffe''])))"
  by (simp add: parse_eval execute_eval plain_host_def fresh_design_def script_eval)

subsection \<open>The emission checkpoints\<close>

lemma emission_iff_path:
  "chk ''blif'' \<Longrightarrow>
     blif_block c False chk = (if blif_file c \<noteq> [] then [''write_blif -param '' @ blif_file c] else [])"
  "chk ''edif'' \<Longrightarrow>
     edif_block c False chk =
       (if edif_file c \<noteq> [] then
          [''splitnets -ports -format ()'', ''quicklogic_eqn'',
           ''write_ql_edif -nogndvcc -attrprop -pvector par '' @ currmodule c @ '' '' @ edif_file c]
        else [])"
  "chk ''verilog'' \<Longrightarrow>
     verilog_block c False chk =
       (if verilog_file c \<noteq> [] then [''write_verilog -noattr -nohex '' @ verilog_file c] else [])"
  by (simp_all add: blif_block_def edif_block_def verilog_block_def)

lemma upd_flags_currmodule:
  "currmodule (flags (upd_flags (\<lambda>c. c\<lparr>top_opt := x\<rparr>) st)) = currmodule (flags st)"
  "currmodule (flags (upd_flags (\<lambda>c. c\<lparr>edif_file := x\<rparr>) st)) = currmodule (flags st)"
  "currmodule (flags (upd_flags (\<lambda>c. c\<lparr>family := x\<rparr>) st)) = currmodule (flags st)"
  "currmodule (flags (upd_flags (\<lambda>c. c\<lparr>blif_file := x\<rparr>) st)) = currmodule (flags st)"
  "currmodule (flags (upd_flags (\<lambda>c. c\<lparr>verilog_file := x\<rparr>) st)) = currmodule (flags st)"
  "currmodule (flags (upd_flags (\<lambda>c. c\<lparr>use_dsp_cfg_params := x\<rparr>) st)) = currmodule (flags st)"
  "currmodule (flags (upd_flags (\<lambda>c. c\<lparr>nodsp := b\<rparr>) st)) = currmodule (flags st)"
  "currmodule (flags (upd_flags (\<lambda>c. c\<lparr>inferAdder := b\<rparr>) st)) = currmodule (flags st)"
  "currmodule (flags (upd_flags (\<lambda>c. c\<lparr>inferBram := b\<rparr>) st)) = currmodule (flags st)"
  "currmodule (flags (upd_flags (\<lambda>c. c\<lparr>bramTypes := b\<rparr>) st)) = currmodule (flags st)"
  "currmodule (flags (upd_flags (\<lambda>c. c\<lparr>abcOpt := b\<rparr>) st)) = currmodule (flags st)"
  "currmodule (flags (upd_flags (\<lambda>c. c\<lparr>abc9 := b\<rparr>) st)) = currmodule (flags st)"
  "currmodule (flags (upd_flags (\<lambda>c. c\<lparr>noffmap := b\<rparr>) st)) = currmodule (flags st)"
  "currmodule (flags (upd_flags (\<lambda>c. c\<lparr>nosdff := b\<rparr>) st)) = currmodule (flags st)"
  by (simp_all add: upd_flags_def)

lemma parse_flags_currmodule:
  "currmodule (flags (fst (parse_flags args st))) = currmodule (flags st)"
proof (induction args st rule: parse_flags.induct)
  case (1 st)
  then show ?case by (simp add: parse_flags.simps)
next
  case (2 a rest st)
  show ?case
    using "2.IH" by (simp add: parse_flags.simps(2) [of a rest st] upd_flags_currmodule)
qed

text \<open>No argument sets \<^verbatim>\<open>currmodule\<close>: the script always runs with the empty string that
  \<^verbatim>\<open>clear_flags\<close> gave it.\<close>

lemma execute_currmodule_empty:
  assumes "execute h args d = Inr out"
  shows "currmodule (out_flags out) = []"
proof -
  obtain st argidx where p: "parse_args args d = (st, argidx)"
    by (cases "parse_args args d")
  have "st = fst (parse_flags (drop 1 args) (initial_st d))"
    using p by (simp add: parse_args_def split_def Let_def)
  then have c: "currmodule (flags st) = []"
    by (simp add: parse_flags_currmodule initial_st_def clear_flags_def)
  have "currmodule (family_overrides (flags st)) = []"
    using c by (simp add: family_overrides_def)
  with assms show ?thesis
    by (auto simp: p execute_def Let_def split: sum.splits if_splits prod.splits)
qed

text \<open>
  C7, at a failing input. With \<^verbatim>\<open>-top mytop -family pp3 -edif out.edif\<close> the hierarchy is
  resolved for the top module \<^verbatim>\<open>mytop\<close>, and the one \<^verbatim>\<open>write_ql_edif\<close> command of the run
  has the empty string where the module name goes.
\<close>

theorem edif_writer_gets_empty_module:
  "''hierarchy -check -top mytop'' \<in>
     set (issued (execute plain_host
       [''synth_quicklogic'', ''-top'', ''mytop'', ''-family'', ''pp3'', ''-edif'', ''out.edif''] fresh_design)) \<and>
   filter (prefix ''write_ql_edif'')
     (issued (execute plain_host
       [''synth_quicklogic'', ''-top'', ''mytop'', ''-family'', ''pp3'', ''-edif'', ''out.edif''] fresh_design)) =
     [''write_ql_edif -nogndvcc -attrprop -pvector par  out.edif'']"
  by (simp add: issued_def parse_eval execute_eval plain_host_def fresh_design_def script_eval)

subsection \<open>The specialized BRAM variants\<close>

lemma chtype_parts_split:
  assumes "CHR '' '' \<notin> set name"
  shows "chtype_parts (''chtype -set '' @ name @ CHR '' '' # sel) = Some (name, sel)"
proof -
  have t: "takeWhile (\<lambda>ch. ch \<noteq> CHR '' '') (name @ CHR '' '' # sel) = name"
    using assms by (induction name) auto
  have d: "drop 12 (''chtype -set '' @ name @ CHR '' '' # sel) = name @ CHR '' '' # sel"
    by simp
  have e: "dropWhile (\<lambda>ch. ch \<noteq> CHR '' '') (name @ CHR '' '' # sel) = CHR '' '' # sel"
    using assms by (induction name) auto
  have p: "prefix ''chtype -set '' (''chtype -set '' @ name @ CHR '' '' # sel)"
    by (rule prefixI) simp
  show ?thesis
    unfolding chtype_parts_def by (simp only: p d t e if_True) simp
qed

lemma digit_char_no_space: "d < 10 \<Longrightarrow> digit_char d \<noteq> CHR '' ''"
proof -
  assume "d < 10"
  then have "d = 0 \<or> d = 1 \<or> d = 2 \<or> d = 3 \<or> d = 4 \<or> d = 5 \<or> d = 6 \<or> d = 7 \<or> d = 8 \<or> d = 9"
    by arith
  then show ?thesis
    by (auto simp: digit_char_def)
qed

lemma show_nat_no_space: "CHR '' '' \<notin> set (show_nat n)"
proof (induction n rule: show_nat.induct)
  case (1 n)
  show ?case
  proof (cases "n < 10")
    case True
    then show ?thesis
      using digit_char_no_space [of n] by (subst show_nat.simps) auto
  next
    case False
    have "n mod 10 < 10" by simp
    then have "digit_char (n mod 10) \<noteq> CHR '' ''" by (rule digit_char_no_space)
    with False "1.IH" show ?thesis
      by (subst show_nat.simps) auto
  qed
qed

lemma show_int_no_space: "CHR '' '' \<notin> set (show_int i)"
  by (simp add: show_int_def show_nat_no_space)

lemma name_shape_nonsplit:
  "prefix ''TDP36K_'' stem \<Longrightarrow> name_shape (stem @ ''_nonsplit'') = Some Nonsplit"
  by (simp add: name_shape_def suffix_def)

lemma name_shape_split:
  "prefix ''TDP36K_'' stem \<Longrightarrow> name_shape (stem @ ''_split'') = Some Split"
proof -
  assume p: "prefix ''TDP36K_'' stem"
  have n: "\<not> suffix ''_nonsplit'' (stem @ ''_split'')"
    by (simp add: suffix_to_prefix)
  have s: "suffix ''_split'' (stem @ ''_split'')"
    by (simp add: suffix_def)
  from p have "prefix ''TDP36K_'' (stem @ ''_split'')"
    by (rule prefix_prefix)
  with n s show ?thesis
    by (simp only: name_shape_def not_True_eq_False if_False if_True)
qed

lemma retype_cmd:
  assumes "cmd = ''chtype -set '' @ (stem @ suf) @ CHR '' '' # sel"
    and "CHR '' '' \<notin> set stem"
    and "prefix ''TDP36K_'' stem"
    and "selection_origin sel = Some orig"
    and "suf = ''_nonsplit'' \<and> sh = Nonsplit \<or> suf = ''_split'' \<and> sh = Split"
  shows "tdp36k_retype cmd = Some (sh, orig)"
proof -
  have n: "CHR '' '' \<notin> set (stem @ suf)"
    using assms(2,5) by auto
  have s: "name_shape (stem @ suf) = Some sh"
    using assms(3,5) name_shape_nonsplit name_shape_split by blast
  show ?thesis
    by (simp only: tdp36k_retype_def assms(1) chtype_parts_split [OF n] option.case prod.case s assms(4))
qed

lemma retype_nonsplit_variants:
  "tdp36k_retype (chtype_bram_nonsplit a b) = Some (Nonsplit, Instantiated)"
  "tdp36k_retype (chtype_fifo_async_nonsplit a b) = Some (Nonsplit, Instantiated)"
  "tdp36k_retype (chtype_fifo_sync_nonsplit a b) = Some (Nonsplit, Instantiated)"
  "tdp36k_retype (chtype_inferred_nonsplit a b) = Some (Nonsplit, Inferred)"
proof -
  show "tdp36k_retype (chtype_bram_nonsplit a b) = Some (Nonsplit, Instantiated)"
    by (rule retype_cmd [where stem = "''TDP36K_BRAM_A_X'' @ show_int a @ ''_B_X'' @ show_int b"
          and suf = "''_nonsplit''"
          and sel = "''t:TDP36K a:is_inferred=0 %i a:is_fifo=0 %i a:port_a_dwidth='' @ show_int a @
                     '' %i a:port_b_dwidth='' @ show_int b @ '' %i''"])
      (simp_all add: chtype_bram_nonsplit_def show_int_no_space selection_origin_def)
  show "tdp36k_retype (chtype_fifo_async_nonsplit a b) = Some (Nonsplit, Instantiated)"
    by (rule retype_cmd [where stem = "''TDP36K_FIFO_ASYNC_A_X'' @ show_int a @ ''_B_X'' @ show_int b"
          and suf = "''_nonsplit''"
          and sel = "''t:TDP36K a:is_inferred=0 %i a:is_fifo=1 %i a:sync_fifo=0 %i a:port_a_dwidth='' @
                     show_int a @ '' %i a:port_b_dwidth='' @ show_int b @ '' %i''"])
      (simp_all add: chtype_fifo_async_nonsplit_def show_int_no_space selection_origin_def)
  show "tdp36k_retype (chtype_fifo_sync_nonsplit a b) = Some (Nonsplit, Instantiated)"
    by (rule retype_cmd [where stem = "''TDP36K_FIFO_SYNC_A_X'' @ show_int a @ ''_B_X'' @ show_int b"
          and suf = "''_nonsplit''"
          and sel = "''t:TDP36K a:is_inferred=0 %i a:is_fifo=1 %i a:sync_fifo=1 %i a:port_a_dwidth='' @
                     show_int a @ '' %i a:port_b_dwidth='' @ show_int b @ '' %i''"])
      (simp_all add: chtype_fifo_sync_nonsplit_def show_int_no_space selection_origin_def)
  show "tdp36k_retype (chtype_inferred_nonsplit a b) = Some (Nonsplit, Inferred)"
    by (rule retype_cmd [where stem = "''TDP36K_BRAM_A_X'' @ show_int a @ ''_B_X'' @ show_int b"
          and suf = "''_nonsplit''"
          and sel = "''t:TDP36K a:is_inferred=1 %i a:port_a_width='' @ show_int a @
                     '' %i a:port_b_width='' @ show_int b @ '' %i''"])
      (simp_all add: chtype_inferred_nonsplit_def show_int_no_space selection_origin_def)
qed

lemma retype_split_variants:
  "tdp36k_retype (chtype_bram_split a1 b1 a2 b2) = Some (Split, Instantiated)"
  "tdp36k_retype (chtype_fifo_async_split a1 b1 a2 b2) = Some (Split, Instantiated)"
  "tdp36k_retype (chtype_fifo_sync_split a1 b1 a2 b2) = Some (Split, Instantiated)"
  "tdp36k_retype (chtype_inferred_split a1 b1 a2 b2) = Some (Split, Inferred)"
proof -
  show "tdp36k_retype (chtype_bram_split a1 b1 a2 b2) = Some (Split, Instantiated)"
    by (rule retype_cmd [where stem = "''TDP36K_BRAM_A1_X'' @ show_int a1 @ ''_B1_X'' @ show_int b1 @
                                       ''_A2_X'' @ show_int a2 @ ''_B2_X'' @ show_int b2"
          and suf = "''_split''"
          and sel = "''t:TDP36K a:is_inferred=0 %i a:is_split=1 %i a:is_fifo=0 %i '' @
                     split_widths ''dwidth'' a1 b1 a2 b2"])
      (simp_all add: chtype_bram_split_def show_int_no_space selection_origin_def)
  show "tdp36k_retype (chtype_fifo_async_split a1 b1 a2 b2) = Some (Split, Instantiated)"
    by (rule retype_cmd [where stem = "''TDP36K_FIFO_ASYNC_A1_X'' @ show_int a1 @ ''_B1_X'' @ show_int b1 @
                                       ''_A2_X'' @ show_int a2 @ ''_B2_X'' @ show_int b2"
          and suf = "''_split''"
          and sel = "''t:TDP36K a:is_inferred=0 %i a:is_split=1 %i a:is_fifo=1 %i a:sync_fifo=0 %i '' @
                     split_widths ''dwidth'' a1 b1 a2 b2"])
      (simp_all add: chtype_fifo_async_split_def show_int_no_space selection_origin_def)
  show "tdp36k_retype (chtype_fifo_sync_split a1 b1 a2 b2) = Some (Split, Instantiated)"
    by (rule retype_cmd [where stem = "''TDP36K_FIFO_SYNC_A1_X'' @ show_int a1 @ ''_B1_X'' @ show_int b1 @
                                       ''_A2_X'' @ show_int a2 @ ''_B2_X'' @ show_int b2"
          and suf = "''_split''"
          and sel = "''t:TDP36K a:is_inferred=0 %i a:is_split=1 %i a:is_fifo=1 %i a:sync_fifo=1 %i '' @
                     split_widths ''dwidth'' a1 b1 a2 b2"])
      (simp_all add: chtype_fifo_sync_split_def show_int_no_space selection_origin_def)
  show "tdp36k_retype (chtype_inferred_split a1 b1 a2 b2) = Some (Split, Inferred)"
    by (rule retype_cmd [where stem = "''TDP36K_BRAM_A1_X'' @ show_int a1 @ ''_B1_X'' @ show_int b1 @
                                       ''_A2_X'' @ show_int a2 @ ''_B2_X'' @ show_int b2"
          and suf = "''_split''"
          and sel = "''t:TDP36K a:is_inferred=1 %i '' @ split_widths ''width'' a1 b1 a2 b2"])
      (simp_all add: chtype_inferred_split_def show_int_no_space selection_origin_def)
qed

lemma length_concat_map_const:
  "(\<And>x. length (f x) = k) \<Longrightarrow> length (concat (map f xs)) = length xs * k"
  by (induction xs) simp_all

lemma length_for2:
  assumes "\<And>a b. length (body a b) = k"
  shows "length (for2 ws body) = length ws * (length ws * k)"
  unfolding for2_def
  by (rule length_concat_map_const, rule length_concat_map_const, rule assms)

lemma length_for4:
  assumes "\<And>a1 b1 a2 b2. length (body a1 b1 a2 b2) = k"
  shows "length (for4 ws body) = length ws * (length ws * (length ws * (length ws * k)))"
  unfolding for4_def
  by (rule length_concat_map_const, rule length_concat_map_const,
      rule length_concat_map_const, rule length_concat_map_const, rule assms)

lemma length_segments:
  "length nonsplit_cmds = 108"
  "length split_cmds = 1875"
  "length inferred_nonsplit_cmds = 36"
  "length inferred_split_cmds = 625"
  by (simp_all add: nonsplit_cmds_def split_cmds_def inferred_nonsplit_cmds_def
      inferred_split_cmds_def length_for2 [where k = 3] length_for4 [where k = 3]
      length_for2 [where k = 1] length_for4 [where k = 1] widths36_def widths18_def)

lemma class_segments:
  "cmd \<in> set nonsplit_cmds \<Longrightarrow> tdp36k_retype cmd = Some (Nonsplit, Instantiated)"
  "cmd \<in> set split_cmds \<Longrightarrow> tdp36k_retype cmd = Some (Split, Instantiated)"
  "cmd \<in> set inferred_nonsplit_cmds \<Longrightarrow> tdp36k_retype cmd = Some (Nonsplit, Inferred)"
  "cmd \<in> set inferred_split_cmds \<Longrightarrow> tdp36k_retype cmd = Some (Split, Inferred)"
  by (auto simp: nonsplit_cmds_def split_cmds_def inferred_nonsplit_cmds_def
      inferred_split_cmds_def set_for2 set_for4 retype_nonsplit_variants retype_split_variants)

lemma count_retypes_append:
  "count_retypes sh orig (xs @ ys) = count_retypes sh orig xs + count_retypes sh orig ys"
  by (simp add: count_retypes_def)

lemma count_retypes_uniform:
  assumes "\<And>cmd. cmd \<in> set xs \<Longrightarrow> tdp36k_retype cmd = v"
  shows "count_retypes sh orig xs = (if v = Some (sh, orig) then length xs else 0)"
  using assms unfolding count_retypes_def
  by (induction xs) auto

lemma count_retypes_none:
  assumes "\<And>cmd. cmd \<in> set xs \<Longrightarrow> tdp36k_retype cmd = None"
  shows "count_retypes sh orig xs = 0"
  using count_retypes_uniform [of xs None sh orig] assms by simp

lemma count_retypes_segments:
  "count_retypes sh orig nonsplit_cmds = (if (sh, orig) = (Nonsplit, Instantiated) then 108 else 0)"
  "count_retypes sh orig split_cmds = (if (sh, orig) = (Split, Instantiated) then 1875 else 0)"
  "count_retypes sh orig inferred_nonsplit_cmds = (if (sh, orig) = (Nonsplit, Inferred) then 36 else 0)"
  "count_retypes sh orig inferred_split_cmds = (if (sh, orig) = (Split, Inferred) then 625 else 0)"
  using count_retypes_uniform [of nonsplit_cmds "Some (Nonsplit, Instantiated)" sh orig]
    count_retypes_uniform [of split_cmds "Some (Split, Instantiated)" sh orig]
    count_retypes_uniform [of inferred_nonsplit_cmds "Some (Nonsplit, Inferred)" sh orig]
    count_retypes_uniform [of inferred_split_cmds "Some (Split, Inferred)" sh orig]
  by (auto simp: class_segments length_segments)

lemma count_retypes_bram_types:
  "count_retypes sh orig bram_types_cmds =
     (case (sh, orig) of
        (Nonsplit, Instantiated) \<Rightarrow> 108
      | (Split, Instantiated) \<Rightarrow> 1875
      | (Nonsplit, Inferred) \<Rightarrow> 36
      | (Split, Inferred) \<Rightarrow> 625)"
  by (cases sh; cases orig)
     (simp_all add: bram_types_cmds_def count_retypes_append count_retypes_segments)

text \<open>The commands of \<^verbatim>\<open>map_bram\<close> before the loops are no re-typing commands, and with
  \<^verbatim>\<open>-bram_types\<close> the loops follow them.\<close>

lemma map_bram_block_bram_types:
  assumes "bramTypes c" and "inferBram c"
    and "family c \<in> {''qlf_k6n10'', ''qlf_k6n10f'', ''pp3''}"
    and "chk ''map_bram''"
  shows "\<exists>pre. map_bram_block c False chk = pre @ bram_types_cmds \<and>
               (\<forall>sh orig. count_retypes sh orig pre = 0)"
proof -
  let ?pre = "(if family c = ''qlf_k6n10f'' then
        [''memory_libmap -lib '' @ lib_path c @ family c @ ''/libmap_brams.txt'',
         ''ql_bram_merge'',
         ''techmap -map '' @ lib_path c @ family c @ ''/libmap_brams_map.v'']
      else []) @
     (if family c = ''qlf_k6n10'' \<or> family c = ''pp3'' then
        [''memory_bram -rules '' @ lib_path c @ family c @ ''/brams.txt'']
      else []) @
     (if family c = ''pp3'' then [''pp3_braminit''] else []) @
     [''techmap -autoproc -map '' @ lib_path c @ family c @ ''/brams_map.v''] @
     (if family c = ''qlf_k6n10f'' then
        [''techmap -map '' @ lib_path c @ family c @ ''/brams_final_map.v'']
      else [])"
  have e: "map_bram_block c False chk = ?pre @ bram_types_cmds"
    using assms by (auto simp: map_bram_block_def map_bram_body_def)
  have n: "tdp36k_retype cmd = None" if "cmd \<in> set ?pre" for cmd
    using that by (auto simp: tdp36k_retype_def chtype_parts_def split: if_splits)
  have "count_retypes sh orig ?pre = 0" for sh orig
    by (rule count_retypes_none) (rule n)
  with e show ?thesis by blast
qed

lemma count_retypes_map_bram:
  assumes "bramTypes c" and "inferBram c"
    and "family c \<in> {''qlf_k6n10'', ''qlf_k6n10f'', ''pp3''}"
    and "chk ''map_bram''"
  shows "count_retypes sh orig (map_bram_block c False chk) = count_retypes sh orig bram_types_cmds"
proof -
  from map_bram_block_bram_types [of c chk, OF assms] obtain pre
    where "map_bram_block c False chk = pre @ bram_types_cmds"
      and "\<forall>sh orig. count_retypes sh orig pre = 0"
    by blast
  then show ?thesis
    by (simp add: count_retypes_append)
qed

lemma fifo_async_9_18_issued: "chtype_fifo_async_nonsplit 9 18 \<in> set bram_types_cmds"
  by (simp add: bram_types_cmds_def nonsplit_cmds_def set_for2 widths36_def)

lemma fifo_async_9_18_text:
  "chtype_fifo_async_nonsplit 9 18 =
     ''chtype -set TDP36K_FIFO_ASYNC_A_X9_B_X18_nonsplit t:TDP36K a:is_inferred=0 %i a:is_fifo=1 %i a:sync_fifo=0 %i a:port_a_dwidth=9 %i a:port_b_dwidth=18 %i''"
  by (simp add: chtype_fifo_async_nonsplit_def show_eval)

lemma chtype_target:
  assumes "cmd = ''chtype -set '' @ name @ CHR '' '' # sel" and "CHR '' '' \<notin> set name"
  shows "map_option fst (chtype_parts cmd) = Some name"
  by (simp only: assms(1) chtype_parts_split [OF assms(2)] option.map fst_conv)

lemma tdp36k_nonsplit_names:
  "map_option fst (chtype_parts (chtype_bram_nonsplit a b)) = Some (nonsplit_name ''BRAM'' a b)"
  "map_option fst (chtype_parts (chtype_fifo_async_nonsplit a b)) = Some (nonsplit_name ''FIFO_ASYNC'' a b)"
  "map_option fst (chtype_parts (chtype_fifo_sync_nonsplit a b)) = Some (nonsplit_name ''FIFO_SYNC'' a b)"
  "map_option fst (chtype_parts (chtype_inferred_nonsplit a b)) = Some (nonsplit_name ''BRAM'' a b)"
proof -
  show "map_option fst (chtype_parts (chtype_bram_nonsplit a b)) = Some (nonsplit_name ''BRAM'' a b)"
    by (rule chtype_target [where sel = "''t:TDP36K a:is_inferred=0 %i a:is_fifo=0 %i a:port_a_dwidth='' @
          show_int a @ '' %i a:port_b_dwidth='' @ show_int b @ '' %i''"])
      (simp_all add: chtype_bram_nonsplit_def nonsplit_name_def show_int_no_space)
  show "map_option fst (chtype_parts (chtype_fifo_async_nonsplit a b)) = Some (nonsplit_name ''FIFO_ASYNC'' a b)"
    by (rule chtype_target [where sel = "''t:TDP36K a:is_inferred=0 %i a:is_fifo=1 %i a:sync_fifo=0 %i a:port_a_dwidth='' @
          show_int a @ '' %i a:port_b_dwidth='' @ show_int b @ '' %i''"])
      (simp_all add: chtype_fifo_async_nonsplit_def nonsplit_name_def show_int_no_space)
  show "map_option fst (chtype_parts (chtype_fifo_sync_nonsplit a b)) = Some (nonsplit_name ''FIFO_SYNC'' a b)"
    by (rule chtype_target [where sel = "''t:TDP36K a:is_inferred=0 %i a:is_fifo=1 %i a:sync_fifo=1 %i a:port_a_dwidth='' @
          show_int a @ '' %i a:port_b_dwidth='' @ show_int b @ '' %i''"])
      (simp_all add: chtype_fifo_sync_nonsplit_def nonsplit_name_def show_int_no_space)
  show "map_option fst (chtype_parts (chtype_inferred_nonsplit a b)) = Some (nonsplit_name ''BRAM'' a b)"
    by (rule chtype_target [where sel = "''t:TDP36K a:is_inferred=1 %i a:port_a_width='' @
          show_int a @ '' %i a:port_b_width='' @ show_int b @ '' %i''"])
      (simp_all add: chtype_inferred_nonsplit_def nonsplit_name_def show_int_no_space)
qed

lemma tdp36k_split_names:
  "map_option fst (chtype_parts (chtype_bram_split a1 b1 a2 b2)) = Some (split_name ''BRAM'' a1 b1 a2 b2)"
  "map_option fst (chtype_parts (chtype_fifo_async_split a1 b1 a2 b2)) = Some (split_name ''FIFO_ASYNC'' a1 b1 a2 b2)"
  "map_option fst (chtype_parts (chtype_fifo_sync_split a1 b1 a2 b2)) = Some (split_name ''FIFO_SYNC'' a1 b1 a2 b2)"
  "map_option fst (chtype_parts (chtype_inferred_split a1 b1 a2 b2)) = Some (split_name ''BRAM'' a1 b1 a2 b2)"
proof -
  show "map_option fst (chtype_parts (chtype_bram_split a1 b1 a2 b2)) = Some (split_name ''BRAM'' a1 b1 a2 b2)"
    by (rule chtype_target [where sel = "''t:TDP36K a:is_inferred=0 %i a:is_split=1 %i a:is_fifo=0 %i '' @
          split_widths ''dwidth'' a1 b1 a2 b2"])
      (simp_all add: chtype_bram_split_def split_name_def show_int_no_space)
  show "map_option fst (chtype_parts (chtype_fifo_async_split a1 b1 a2 b2)) = Some (split_name ''FIFO_ASYNC'' a1 b1 a2 b2)"
    by (rule chtype_target [where sel = "''t:TDP36K a:is_inferred=0 %i a:is_split=1 %i a:is_fifo=1 %i a:sync_fifo=0 %i '' @
          split_widths ''dwidth'' a1 b1 a2 b2"])
      (simp_all add: chtype_fifo_async_split_def split_name_def show_int_no_space)
  show "map_option fst (chtype_parts (chtype_fifo_sync_split a1 b1 a2 b2)) = Some (split_name ''FIFO_SYNC'' a1 b1 a2 b2)"
    by (rule chtype_target [where sel = "''t:TDP36K a:is_inferred=0 %i a:is_split=1 %i a:is_fifo=1 %i a:sync_fifo=1 %i '' @
          split_widths ''dwidth'' a1 b1 a2 b2"])
      (simp_all add: chtype_fifo_sync_split_def split_name_def show_int_no_space)
  show "map_option fst (chtype_parts (chtype_inferred_split a1 b1 a2 b2)) = Some (split_name ''BRAM'' a1 b1 a2 b2)"
    by (rule chtype_target [where sel = "''t:TDP36K a:is_inferred=1 %i '' @ split_widths ''width'' a1 b1 a2 b2"])
      (simp_all add: chtype_inferred_split_def split_name_def show_int_no_space)
qed

lemma concat_map_product:
  "concat (map (\<lambda>a. concat (map (g a) ys)) xs) = concat (map (\<lambda>(a, b). g a b) (List.product xs ys))"
  by (induction xs) (simp_all add: comp_def)

lemma for2_product:
  "for2 ws body = concat (map (\<lambda>(a, b). body a b) (List.product ws ws))"
  unfolding for2_def by (rule concat_map_product)

lemma for4_product:
  "for4 ws body =
     concat (map (\<lambda>(a1, b1, a2, b2). body a1 b1 a2 b2)
       (List.product ws (List.product ws (List.product ws ws))))"
proof -
  have 1: "concat (map (\<lambda>a2. concat (map (\<lambda>b2. body a1 b1 a2 b2) ws)) ws) =
           concat (map (\<lambda>(a2, b2). body a1 b1 a2 b2) (List.product ws ws))" for a1 b1
    by (rule concat_map_product)
  have 2: "concat (map (\<lambda>b1. concat (map (\<lambda>(a2, b2). body a1 b1 a2 b2) (List.product ws ws))) ws) =
           concat (map (\<lambda>(b1, a2, b2). body a1 b1 a2 b2) (List.product ws (List.product ws ws)))" for a1
    by (rule concat_map_product)
  have 3: "concat (map (\<lambda>a1. concat (map (\<lambda>(b1, a2, b2). body a1 b1 a2 b2)
                                     (List.product ws (List.product ws ws)))) ws) =
           concat (map (\<lambda>(a1, b1, a2, b2). body a1 b1 a2 b2)
             (List.product ws (List.product ws (List.product ws ws))))"
    by (rule concat_map_product)
  show ?thesis
    unfolding for4_def 1 2 3 ..
qed

lemma chtype_texts:
  "chtype_bram_nonsplit a b =
          ''chtype -set TDP36K_BRAM_A_X'' @ show_int a @ ''_B_X'' @ show_int b @
           ''_nonsplit t:TDP36K a:is_inferred=0 %i a:is_fifo=0 %i a:port_a_dwidth='' @ show_int a @
           '' %i a:port_b_dwidth='' @ show_int b @ '' %i''"
  "chtype_fifo_async_nonsplit a b =
          ''chtype -set TDP36K_FIFO_ASYNC_A_X'' @ show_int a @ ''_B_X'' @ show_int b @
           ''_nonsplit t:TDP36K a:is_inferred=0 %i a:is_fifo=1 %i a:sync_fifo=0 %i a:port_a_dwidth='' @ show_int a @
           '' %i a:port_b_dwidth='' @ show_int b @ '' %i''"
  "chtype_fifo_sync_nonsplit a b =
          ''chtype -set TDP36K_FIFO_SYNC_A_X'' @ show_int a @ ''_B_X'' @ show_int b @
           ''_nonsplit t:TDP36K a:is_inferred=0 %i a:is_fifo=1 %i a:sync_fifo=1 %i a:port_a_dwidth='' @ show_int a @
           '' %i a:port_b_dwidth='' @ show_int b @ '' %i''"
  "chtype_inferred_nonsplit a b =
          ''chtype -set TDP36K_BRAM_A_X'' @ show_int a @ ''_B_X'' @ show_int b @
           ''_nonsplit t:TDP36K a:is_inferred=1 %i a:port_a_width='' @ show_int a @
           '' %i a:port_b_width='' @ show_int b @ '' %i''"
  "chtype_bram_split a1 b1 a2 b2 =
          ''chtype -set TDP36K_BRAM_A1_X'' @ show_int a1 @ ''_B1_X'' @ show_int b1 @
           ''_A2_X'' @ show_int a2 @ ''_B2_X'' @ show_int b2 @
           ''_split t:TDP36K a:is_inferred=0 %i a:is_split=1 %i a:is_fifo=0 %i a:port_a1_dwidth='' @ show_int a1 @
           '' %i a:port_b1_dwidth='' @ show_int b1 @ '' %i a:port_a2_dwidth='' @ show_int a2 @
           '' %i a:port_b2_dwidth='' @ show_int b2 @ '' %i''"
  "chtype_fifo_async_split a1 b1 a2 b2 =
          ''chtype -set TDP36K_FIFO_ASYNC_A1_X'' @ show_int a1 @ ''_B1_X'' @ show_int b1 @
           ''_A2_X'' @ show_int a2 @ ''_B2_X'' @ show_int b2 @
           ''_split t:TDP36K a:is_inferred=0 %i a:is_split=1 %i a:is_fifo=1 %i a:sync_fifo=0 %i a:port_a1_dwidth='' @ show_int a1 @
           '' %i a:port_b1_dwidth='' @ show_int b1 @ '' %i a:port_a2_dwidth='' @ show_int a2 @
           '' %i a:port_b2_dwidth='' @ show_int b2 @ '' %i''"
  "chtype_fifo_sync_split a1 b1 a2 b2 =
          ''chtype -set TDP36K_FIFO_SYNC_A1_X'' @ show_int a1 @ ''_B1_X'' @ show_int b1 @
           ''_A2_X'' @ show_int a2 @ ''_B2_X'' @ show_int b2 @
           ''_split t:TDP36K a:is_inferred=0 %i a:is_split=1 %i a:is_fifo=1 %i a:sync_fifo=1 %i a:port_a1_dwidth='' @ show_int a1 @
           '' %i a:port_b1_dwidth='' @ show_int b1 @ '' %i a:port_a2_dwidth='' @ show_int a2 @
           '' %i a:port_b2_dwidth='' @ show_int b2 @ '' %i''"
  "chtype_inferred_split a1 b1 a2 b2 =
          ''chtype -set TDP36K_BRAM_A1_X'' @ show_int a1 @ ''_B1_X'' @ show_int b1 @
           ''_A2_X'' @ show_int a2 @ ''_B2_X'' @ show_int b2 @
           ''_split t:TDP36K a:is_inferred=1 %i a:port_a1_width='' @ show_int a1 @
           '' %i a:port_b1_width='' @ show_int b1 @ '' %i a:port_a2_width='' @ show_int a2 @
           '' %i a:port_b2_width='' @ show_int b2 @ '' %i''"
  by (simp_all add: chtype_defs split_widths_def)

lemma bram_types_cmds_explicit:
  "bram_types_cmds =
      concat (map (\<lambda>(a, b).
          [''chtype -set TDP36K_BRAM_A_X'' @ show_int a @ ''_B_X'' @ show_int b @
           ''_nonsplit t:TDP36K a:is_inferred=0 %i a:is_fifo=0 %i a:port_a_dwidth='' @ show_int a @
           '' %i a:port_b_dwidth='' @ show_int b @ '' %i'',
           ''chtype -set TDP36K_FIFO_ASYNC_A_X'' @ show_int a @ ''_B_X'' @ show_int b @
           ''_nonsplit t:TDP36K a:is_inferred=0 %i a:is_fifo=1 %i a:sync_fifo=0 %i a:port_a_dwidth='' @ show_int a @
           '' %i a:port_b_dwidth='' @ show_int b @ '' %i'',
           ''chtype -set TDP36K_FIFO_SYNC_A_X'' @ show_int a @ ''_B_X'' @ show_int b @
           ''_nonsplit t:TDP36K a:is_inferred=0 %i a:is_fifo=1 %i a:sync_fifo=1 %i a:port_a_dwidth='' @ show_int a @
           '' %i a:port_b_dwidth='' @ show_int b @ '' %i''])
        (List.product [1, 2, 4, 9, 18, 36] [1, 2, 4, 9, 18, 36])) @
      concat (map (\<lambda>(a1, b1, a2, b2).
          [''chtype -set TDP36K_BRAM_A1_X'' @ show_int a1 @ ''_B1_X'' @ show_int b1 @
           ''_A2_X'' @ show_int a2 @ ''_B2_X'' @ show_int b2 @
           ''_split t:TDP36K a:is_inferred=0 %i a:is_split=1 %i a:is_fifo=0 %i a:port_a1_dwidth='' @ show_int a1 @
           '' %i a:port_b1_dwidth='' @ show_int b1 @ '' %i a:port_a2_dwidth='' @ show_int a2 @
           '' %i a:port_b2_dwidth='' @ show_int b2 @ '' %i'',
           ''chtype -set TDP36K_FIFO_ASYNC_A1_X'' @ show_int a1 @ ''_B1_X'' @ show_int b1 @
           ''_A2_X'' @ show_int a2 @ ''_B2_X'' @ show_int b2 @
           ''_split t:TDP36K a:is_inferred=0 %i a:is_split=1 %i a:is_fifo=1 %i a:sync_fifo=0 %i a:port_a1_dwidth='' @ show_int a1 @
           '' %i a:port_b1_dwidth='' @ show_int b1 @ '' %i a:port_a2_dwidth='' @ show_int a2 @
           '' %i a:port_b2_dwidth='' @ show_int b2 @ '' %i'',
           ''chtype -set TDP36K_FIFO_SYNC_A1_X'' @ show_int a1 @ ''_B1_X'' @ show_int b1 @
           ''_A2_X'' @ show_int a2 @ ''_B2_X'' @ show_int b2 @
           ''_split t:TDP36K a:is_inferred=0 %i a:is_split=1 %i a:is_fifo=1 %i a:sync_fifo=1 %i a:port_a1_dwidth='' @ show_int a1 @
           '' %i a:port_b1_dwidth='' @ show_int b1 @ '' %i a:port_a2_dwidth='' @ show_int a2 @
           '' %i a:port_b2_dwidth='' @ show_int b2 @ '' %i''])
        (List.product [1, 2, 4, 9, 18] (List.product [1, 2, 4, 9, 18] (List.product [1, 2, 4, 9, 18] [1, 2, 4, 9, 18])))) @
      concat (map (\<lambda>(a, b).
          [''chtype -set TDP36K_BRAM_A_X'' @ show_int a @ ''_B_X'' @ show_int b @
           ''_nonsplit t:TDP36K a:is_inferred=1 %i a:port_a_width='' @ show_int a @
           '' %i a:port_b_width='' @ show_int b @ '' %i''])
        (List.product [1, 2, 4, 9, 18, 36] [1, 2, 4, 9, 18, 36])) @
      concat (map (\<lambda>(a1, b1, a2, b2).
          [''chtype -set TDP36K_BRAM_A1_X'' @ show_int a1 @ ''_B1_X'' @ show_int b1 @
           ''_A2_X'' @ show_int a2 @ ''_B2_X'' @ show_int b2 @
           ''_split t:TDP36K a:is_inferred=1 %i a:port_a1_width='' @ show_int a1 @
           '' %i a:port_b1_width='' @ show_int b1 @ '' %i a:port_a2_width='' @ show_int a2 @
           '' %i a:port_b2_width='' @ show_int b2 @ '' %i''])
        (List.product [1, 2, 4, 9, 18] (List.product [1, 2, 4, 9, 18] (List.product [1, 2, 4, 9, 18] [1, 2, 4, 9, 18]))))"
  unfolding bram_types_cmds_def nonsplit_cmds_def split_cmds_def inferred_nonsplit_cmds_def
    inferred_split_cmds_def for2_product for4_product widths36_def widths18_def chtype_texts
  by (rule refl)

lemma map_bram_block_without_types:
  assumes "bramTypes c" and "inferBram c"
    and "family c \<in> {''qlf_k6n10'', ''qlf_k6n10f'', ''pp3''}"
    and "chk ''map_bram''"
  shows "map_bram_block c False chk =
           map_bram_block (c\<lparr>bramTypes := False\<rparr>) False chk @ bram_types_cmds"
    and "\<forall>cmd \<in> set (map_bram_block (c\<lparr>bramTypes := False\<rparr>) False chk). \<not> prefix ''chtype'' cmd"
  using assms by (auto simp: map_bram_block_def map_bram_body_def)

lemma show_int_widths:
  "map show_int [1, 2, 4, 9, 18, 36] = [''1'', ''2'', ''4'', ''9'', ''18'', ''36'']"
  by (simp add: show_eval)

text \<open>
  C1, as the code has it. With \<^verbatim>\<open>-bram_types\<close> set, BRAM inference on and the family one
  of qlf_k6n10, qlf_k6n10f and pp3, the \<^verbatim>\<open>map_bram\<close> block, when its checkpoint is active in
  real mode, issues what it issues without \<^verbatim>\<open>-bram_types\<close>, none of it a \<^verbatim>\<open>chtype\<close>, and
  then, in this order:
  for every pair of widths of 1, 2, 4, 9, 18, 36 (port A outermost) the three non-split
  commands for instantiated cells, \<^verbatim>\<open>BRAM\<close>, \<^verbatim>\<open>FIFO_ASYNC\<close>, \<^verbatim>\<open>FIFO_SYNC\<close>, named
  \<^verbatim>\<open>TDP36K_<kind>_A_X<a>_B_X<b>_nonsplit\<close>;
  for every four widths of 1, 2, 4, 9, 18 (A1 outermost, then B1, A2, B2) the three split
  commands for instantiated cells, named \<^verbatim>\<open>TDP36K_<kind>_A1_X<a1>_B1_X<b1>_A2_X<a2>_B2_X<b2>_split\<close>;
  for every pair of the six widths one non-split command for inferred cells, and for
  every four of the five widths one split command for inferred cells, both with the
  \<^verbatim>\<open>BRAM\<close> names again. The widths print in decimal. That makes exactly 108 and 1875
  re-typing commands for instantiated cells and 36 and 625 for inferred ones; the command
  for the asynchronous FIFO with widths 9 and 18 is among them.
\<close>

theorem bram_types_retyping_counts:
  assumes "bramTypes c" and "inferBram c"
    and "family c \<in> {''qlf_k6n10'', ''qlf_k6n10f'', ''pp3''}"
    and "chk ''map_bram''"
  shows "map_bram_block c False chk =
      map_bram_block (c\<lparr>bramTypes := False\<rparr>) False chk @
      concat (map (\<lambda>(a, b).
          [''chtype -set TDP36K_BRAM_A_X'' @ show_int a @ ''_B_X'' @ show_int b @
           ''_nonsplit t:TDP36K a:is_inferred=0 %i a:is_fifo=0 %i a:port_a_dwidth='' @ show_int a @
           '' %i a:port_b_dwidth='' @ show_int b @ '' %i'',
           ''chtype -set TDP36K_FIFO_ASYNC_A_X'' @ show_int a @ ''_B_X'' @ show_int b @
           ''_nonsplit t:TDP36K a:is_inferred=0 %i a:is_fifo=1 %i a:sync_fifo=0 %i a:port_a_dwidth='' @ show_int a @
           '' %i a:port_b_dwidth='' @ show_int b @ '' %i'',
           ''chtype -set TDP36K_FIFO_SYNC_A_X'' @ show_int a @ ''_B_X'' @ show_int b @
           ''_nonsplit t:TDP36K a:is_inferred=0 %i a:is_fifo=1 %i a:sync_fifo=1 %i a:port_a_dwidth='' @ show_int a @
           '' %i a:port_b_dwidth='' @ show_int b @ '' %i''])
        (List.product [1, 2, 4, 9, 18, 36] [1, 2, 4, 9, 18, 36])) @
      concat (map (\<lambda>(a1, b1, a2, b2).
          [''chtype -set TDP36K_BRAM_A1_X'' @ show_int a1 @ ''_B1_X'' @ show_int b1 @
           ''_A2_X'' @ show_int a2 @ ''_B2_X'' @ show_int b2 @
           ''_split t:TDP36K a:is_inferred=0 %i a:is_split=1 %i a:is_fifo=0 %i a:port_a1_dwidth='' @ show_int a1 @
           '' %i a:port_b1_dwidth='' @ show_int b1 @ '' %i a:port_a2_dwidth='' @ show_int a2 @
           '' %i a:port_b2_dwidth='' @ show_int b2 @ '' %i'',
           ''chtype -set TDP36K_FIFO_ASYNC_A1_X'' @ show_int a1 @ ''_B1_X'' @ show_int b1 @
           ''_A2_X'' @ show_int a2 @ ''_B2_X'' @ show_int b2 @
           ''_split t:TDP36K a:is_inferred=0 %i a:is_split=1 %i a:is_fifo=1 %i a:sync_fifo=0 %i a:port_a1_dwidth='' @ show_int a1 @
           '' %i a:port_b1_dwidth='' @ show_int b1 @ '' %i a:port_a2_dwidth='' @ show_int a2 @
           '' %i a:port_b2_dwidth='' @ show_int b2 @ '' %i'',
           ''chtype -set TDP36K_FIFO_SYNC_A1_X'' @ show_int a1 @ ''_B1_X'' @ show_int b1 @
           ''_A2_X'' @ show_int a2 @ ''_B2_X'' @ show_int b2 @
           ''_split t:TDP36K a:is_inferred=0 %i a:is_split=1 %i a:is_fifo=1 %i a:sync_fifo=1 %i a:port_a1_dwidth='' @ show_int a1 @
           '' %i a:port_b1_dwidth='' @ show_int b1 @ '' %i a:port_a2_dwidth='' @ show_int a2 @
           '' %i a:port_b2_dwidth='' @ show_int b2 @ '' %i''])
        (List.product [1, 2, 4, 9, 18] (List.product [1, 2, 4, 9, 18] (List.product [1, 2, 4, 9, 18] [1, 2, 4, 9, 18])))) @
      concat (map (\<lambda>(a, b).
          [''chtype -set TDP36K_BRAM_A_X'' @ show_int a @ ''_B_X'' @ show_int b @
           ''_nonsplit t:TDP36K a:is_inferred=1 %i a:port_a_width='' @ show_int a @
           '' %i a:port_b_width='' @ show_int b @ '' %i''])
        (List.product [1, 2, 4, 9, 18, 36] [1, 2, 4, 9, 18, 36])) @
      concat (map (\<lambda>(a1, b1, a2, b2).
          [''chtype -set TDP36K_BRAM_A1_X'' @ show_int a1 @ ''_B1_X'' @ show_int b1 @
           ''_A2_X'' @ show_int a2 @ ''_B2_X'' @ show_int b2 @
           ''_split t:TDP36K a:is_inferred=1 %i a:port_a1_width='' @ show_int a1 @
           '' %i a:port_b1_width='' @ show_int b1 @ '' %i a:port_a2_width='' @ show_int a2 @
           '' %i a:port_b2_width='' @ show_int b2 @ '' %i''])
        (List.product [1, 2, 4, 9, 18] (List.product [1, 2, 4, 9, 18] (List.product [1, 2, 4, 9, 18] [1, 2, 4, 9, 18])))) \<and>
    (\<forall>cmd \<in> set (map_bram_block (c\<lparr>bramTypes := False\<rparr>) False chk). \<not> prefix ''chtype'' cmd) \<and>
    map show_int [1, 2, 4, 9, 18, 36] = [''1'', ''2'', ''4'', ''9'', ''18'', ''36''] \<and>
    count_retypes Nonsplit Instantiated (map_bram_block c False chk) = 108 \<and>
    count_retypes Split Instantiated (map_bram_block c False chk) = 1875 \<and>
    count_retypes Nonsplit Inferred (map_bram_block c False chk) = 36 \<and>
    count_retypes Split Inferred (map_bram_block c False chk) = 625 \<and>
    ''chtype -set TDP36K_FIFO_ASYNC_A_X9_B_X18_nonsplit t:TDP36K a:is_inferred=0 %i a:is_fifo=1 %i a:sync_fifo=0 %i a:port_a_dwidth=9 %i a:port_b_dwidth=18 %i''
      \<in> set (map_bram_block c False chk)"
proof -
  have e: "map_bram_block c False chk =
           map_bram_block (c\<lparr>bramTypes := False\<rparr>) False chk @ bram_types_cmds"
    using assms by (rule map_bram_block_without_types(1))
  have p: "\<forall>cmd \<in> set (map_bram_block (c\<lparr>bramTypes := False\<rparr>) False chk). \<not> prefix ''chtype'' cmd"
    using assms by (rule map_bram_block_without_types(2))
  have n: "count_retypes sh orig (map_bram_block c False chk) = count_retypes sh orig bram_types_cmds"
    for sh orig
    using assms by (rule count_retypes_map_bram)
  have c1: "count_retypes Nonsplit Instantiated (map_bram_block c False chk) = 108"
    and c2: "count_retypes Split Instantiated (map_bram_block c False chk) = 1875"
    and c3: "count_retypes Nonsplit Inferred (map_bram_block c False chk) = 36"
    and c4: "count_retypes Split Inferred (map_bram_block c False chk) = 625"
    by (simp_all add: n count_retypes_bram_types)
  have "chtype_fifo_async_nonsplit 9 18 \<in> set (map_bram_block c False chk)"
    using fifo_async_9_18_issued by (simp add: e)
  then have m: "''chtype -set TDP36K_FIFO_ASYNC_A_X9_B_X18_nonsplit t:TDP36K a:is_inferred=0 %i a:is_fifo=1 %i a:sync_fifo=0 %i a:port_a_dwidth=9 %i a:port_b_dwidth=18 %i''
      \<in> set (map_bram_block c False chk)"
    by (simp only: fifo_async_9_18_text)
  from e have x: "map_bram_block c False chk =
      map_bram_block (c\<lparr>bramTypes := False\<rparr>) False chk @
      concat (map (\<lambda>(a, b).
          [''chtype -set TDP36K_BRAM_A_X'' @ show_int a @ ''_B_X'' @ show_int b @
           ''_nonsplit t:TDP36K a:is_inferred=0 %i a:is_fifo=0 %i a:port_a_dwidth='' @ show_int a @
           '' %i a:port_b_dwidth='' @ show_int b @ '' %i'',
           ''chtype -set TDP36K_FIFO_ASYNC_A_X'' @ show_int a @ ''_B_X'' @ show_int b @
           ''_nonsplit t:TDP36K a:is_inferred=0 %i a:is_fifo=1 %i a:sync_fifo=0 %i a:port_a_dwidth='' @ show_int a @
           '' %i a:port_b_dwidth='' @ show_int b @ '' %i'',
           ''chtype -set TDP36K_FIFO_SYNC_A_X'' @ show_int a @ ''_B_X'' @ show_int b @
           ''_nonsplit t:TDP36K a:is_inferred=0 %i a:is_fifo=1 %i a:sync_fifo=1 %i a:port_a_dwidth='' @ show_int a @
           '' %i a:port_b_dwidth='' @ show_int b @ '' %i''])
        (List.product [1, 2, 4, 9, 18, 36] [1, 2, 4, 9, 18, 36])) @
      concat (map (\<lambda>(a1, b1, a2, b2).
          [''chtype -set TDP36K_BRAM_A1_X'' @ show_int a1 @ ''_B1_X'' @ show_int b1 @
           ''_A2_X'' @ show_int a2 @ ''_B2_X'' @ show_int b2 @
           ''_split t:TDP36K a:is_inferred=0 %i a:is_split=1 %i a:is_fifo=0 %i a:port_a1_dwidth='' @ show_int a1 @
           '' %i a:port_b1_dwidth='' @ show_int b1 @ '' %i a:port_a2_dwidth='' @ show_int a2 @
           '' %i a:port_b2_dwidth='' @ show_int b2 @ '' %i'',
           ''chtype -set TDP36K_FIFO_ASYNC_A1_X'' @ show_int a1 @ ''_B1_X'' @ show_int b1 @
           ''_A2_X'' @ show_int a2 @ ''_B2_X'' @ show_int b2 @
           ''_split t:TDP36K a:is_inferred=0 %i a:is_split=1 %i a:is_fifo=1 %i a:sync_fifo=0 %i a:port_a1_dwidth='' @ show_int a1 @
           '' %i a:port_b1_dwidth='' @ show_int b1 @ '' %i a:port_a2_dwidth='' @ show_int a2 @
           '' %i a:port_b2_dwidth='' @ show_int b2 @ '' %i'',
           ''chtype -set TDP36K_FIFO_SYNC_A1_X'' @ show_int a1 @ ''_B1_X'' @ show_int b1 @
           ''_A2_X'' @ show_int a2 @ ''_B2_X'' @ show_int b2 @
           ''_split t:TDP36K a:is_inferred=0 %i a:is_split=1 %i a:is_fifo=1 %i a:sync_fifo=1 %i a:port_a1_dwidth='' @ show_int a1 @
           '' %i a:port_b1_dwidth='' @ show_int b1 @ '' %i a:port_a2_dwidth='' @ show_int a2 @
           '' %i a:port_b2_dwidth='' @ show_int b2 @ '' %i''])
        (List.product [1, 2, 4, 9, 18] (List.product [1, 2, 4, 9, 18] (List.product [1, 2, 4, 9, 18] [1, 2, 4, 9, 18])))) @
      concat (map (\<lambda>(a, b).
          [''chtype -set TDP36K_BRAM_A_X'' @ show_int a @ ''_B_X'' @ show_int b @
           ''_nonsplit t:TDP36K a:is_inferred=1 %i a:port_a_width='' @ show_int a @
           '' %i a:port_b_width='' @ show_int b @ '' %i''])
        (List.product [1, 2, 4, 9, 18, 36] [1, 2, 4, 9, 18, 36])) @
      concat (map (\<lambda>(a1, b1, a2, b2).
          [''chtype -set TDP36K_BRAM_A1_X'' @ show_int a1 @ ''_B1_X'' @ show_int b1 @
           ''_A2_X'' @ show_int a2 @ ''_B2_X'' @ show_int b2 @
           ''_split t:TDP36K a:is_inferred=1 %i a:port_a1_width='' @ show_int a1 @
           '' %i a:port_b1_width='' @ show_int b1 @ '' %i a:port_a2_width='' @ show_int a2 @
           '' %i a:port_b2_width='' @ show_int b2 @ '' %i''])
        (List.product [1, 2, 4, 9, 18] (List.product [1, 2, 4, 9, 18] (List.product [1, 2, 4, 9, 18] [1, 2, 4, 9, 18]))))"
    unfolding bram_types_cmds_explicit .
  from x p show_int_widths c1 c2 c3 c4 m show ?thesis
    by (intro conjI)
qed

lemma bram_types_flags_fields:
  "bramTypes bram_types_flags" "inferBram bram_types_flags"
  "family bram_types_flags = ''qlf_k6n10f''"
  by (simp_all add: bram_types_flags_def bram_types_args_def parse_eval)

theorem bram_types_retyping_counts_witness:
  "bramTypes bram_types_flags \<and> inferBram bram_types_flags \<and>
   family bram_types_flags \<in> {''qlf_k6n10'', ''qlf_k6n10f'', ''pp3''} \<and>
   in_window [] [] ''map_bram'' \<and>
   ''ql_bram_merge'' \<in> set (map_bram_block (bram_types_flags\<lparr>bramTypes := False\<rparr>) False (in_window [] [])) \<and>
   \<not> prefix ''chtype'' ''ql_bram_merge'' \<and>
   count_retypes Nonsplit Instantiated (map_bram_block bram_types_flags False (in_window [] [])) = 108 \<and>
   count_retypes Split Instantiated (map_bram_block bram_types_flags False (in_window [] [])) = 1875 \<and>
   ''chtype -set TDP36K_FIFO_ASYNC_A_X9_B_X18_nonsplit t:TDP36K a:is_inferred=0 %i a:is_fifo=1 %i a:sync_fifo=0 %i a:port_a_dwidth=9 %i a:port_b_dwidth=18 %i''
     \<in> set (map_bram_block bram_types_flags False (in_window [] []))"
proof -
  have f: "family bram_types_flags \<in> {''qlf_k6n10'', ''qlf_k6n10f'', ''pp3''}"
    by (simp add: bram_types_flags_fields)
  have w: "in_window [] [] ''map_bram''"
    by (simp add: window_eval)
  have q: "''ql_bram_merge'' \<in> set (map_bram_block (bram_types_flags\<lparr>bramTypes := False\<rparr>) False (in_window [] []))"
    using w by (simp add: map_bram_block_def map_bram_body_def bram_types_flags_fields)
  from bram_types_retyping_counts [of bram_types_flags "in_window [] []",
      OF bram_types_flags_fields(1) bram_types_flags_fields(2) f w]
    bram_types_flags_fields f w q
  show ?thesis
    by blast
qed

text \<open>The count of the specification fails for \<^verbatim>\<open>-family qlf_k6n10f -bram_types\<close> with the
  full window:
  the \<^verbatim>\<open>map_bram\<close> block issues 2649 commands in all; those that re-type to a split variant
  are 1875 for instantiated and 625 for inferred cells, 2500 together and not 9375; those
  that re-type to a non-split variant are 108 and 36, 144 together.\<close>

theorem bram_types_split_count_counterexample:
  "length (map_bram_block bram_types_flags False (in_window [] [])) = 2649 \<and>
   count_retypes Split Instantiated (map_bram_block bram_types_flags False (in_window [] [])) = 1875 \<and>
   count_retypes Split Inferred (map_bram_block bram_types_flags False (in_window [] [])) = 625 \<and>
   count_retypes Nonsplit Instantiated (map_bram_block bram_types_flags False (in_window [] [])) = 108 \<and>
   count_retypes Nonsplit Inferred (map_bram_block bram_types_flags False (in_window [] [])) = 36 \<and>
   count_retypes Split Instantiated (map_bram_block bram_types_flags False (in_window [] [])) +
   count_retypes Split Inferred (map_bram_block bram_types_flags False (in_window [] [])) \<noteq> 9375"
proof -
  have f: "family bram_types_flags \<in> {''qlf_k6n10'', ''qlf_k6n10f'', ''pp3''}"
    by (simp add: bram_types_flags_fields)
  have w: "in_window [] [] ''map_bram''"
    by (simp add: window_eval)
  have n: "count_retypes sh orig (map_bram_block bram_types_flags False (in_window [] [])) =
           count_retypes sh orig bram_types_cmds" for sh orig
    using bram_types_flags_fields(1) bram_types_flags_fields(2) f w
    by (rule count_retypes_map_bram)
  have "length bram_types_cmds = 2644"
    by (simp add: bram_types_cmds_def length_segments)
  then have l: "length (map_bram_block bram_types_flags False (in_window [] [])) = 2649"
    using w by (simp add: map_bram_block_def map_bram_body_def bram_types_flags_fields)
  show ?thesis
    by (simp only: l n count_retypes_bram_types) simp
qed

subsection \<open>Where a resumed run agrees with a single run\<close>

lemma active_blocks:
  "chk ''begin'' \<Longrightarrow> begin_block c hm chk = begin_block c hm (\<lambda>l. True)"
  "chk ''prepare'' \<Longrightarrow> prepare_block c hm chk = prepare_block c hm (\<lambda>l. True)"
  "chk ''coarse'' \<Longrightarrow> coarse_block n chk = coarse_block n (\<lambda>l. True)"
  "chk ''map_bram'' \<Longrightarrow> map_bram_block c hm chk = map_bram_block c hm (\<lambda>l. True)"
  "chk ''map_ffram'' \<Longrightarrow> map_ffram_block n chk = map_ffram_block n (\<lambda>l. True)"
  "chk ''map_gates'' \<Longrightarrow> map_gates_block c hm n chk = map_gates_block c hm n (\<lambda>l. True)"
  "chk ''map_ffs'' \<Longrightarrow> map_ffs_block c hm n chk = map_ffs_block c hm n (\<lambda>l. True)"
  "chk ''map_luts'' \<Longrightarrow> map_luts_block h c hm chk = map_luts_block h c hm (\<lambda>l. True)"
  "chk ''map_cells'' \<Longrightarrow> map_cells_block c hm chk = map_cells_block c hm (\<lambda>l. True)"
  "chk ''check'' \<Longrightarrow> check_block chk = check_block (\<lambda>l. True)"
  "chk ''iomap'' \<Longrightarrow> iomap_block c hm chk = iomap_block c hm (\<lambda>l. True)"
  "chk ''finalize'' \<Longrightarrow> finalize_block c hm chk = finalize_block c hm (\<lambda>l. True)"
  "chk ''blif'' \<Longrightarrow> blif_block c hm chk = blif_block c hm (\<lambda>l. True)"
  "chk ''edif'' \<Longrightarrow> edif_block c hm chk = edif_block c hm (\<lambda>l. True)"
  "chk ''verilog'' \<Longrightarrow> verilog_block c hm chk = verilog_block c hm (\<lambda>l. True)"
  by (simp_all add: begin_block_def prepare_block_def coarse_block_def map_bram_block_def
      map_ffram_block_def map_gates_block_def map_ffs_block_def map_luts_block_def
      map_cells_block_def check_block_def iomap_block_def finalize_block_def blif_block_def
      edif_block_def verilog_block_def)

text \<open>The split of C3 does agree with the single run in real mode when the \<^verbatim>\<open>prepare\<close>
  block leaves \<^verbatim>\<open>noDFFArgs\<close> empty and the \<^verbatim>\<open>map_dsp\<close> body issues nothing: the two defects
  are the only difference.\<close>

lemma resumed_run_agrees_without_fragment:
  assumes "noDFFArgs_prepare c = []" and "map_dsp_body c False = []"
  shows "script h c False (in_window ''begin'' ''map_gates'') @
         script h c False (in_window ''map_ffs'' ''verilog'') =
         script h c False (in_window ''begin'' ''verilog'')"
proof -
  have p: "snd (prepare_block c False (\<lambda>l. True)) = []"
    using assms(1) by (simp add: prepare_block_def)
  show ?thesis
    unfolding script_def script_family_def
    by (simp add: split_def Let_def map_dsp_block_ungated assms(2) p
        active_blocks [where chk = "in_window ''begin'' ''map_gates''"]
        active_blocks [where chk = "in_window ''map_ffs'' ''verilog''"]
        active_blocks [where chk = "in_window ''begin'' ''verilog''"]
        other_blocks_respect_window [where chk = "in_window ''begin'' ''map_gates''"]
        other_blocks_respect_window [where chk = "in_window ''map_ffs'' ''verilog''"]
        window_eval)
qed

end
